theory Spec2Isabelle
  imports Main
begin

section \<open>SSH tunnel and port-redirect management of LHUB.py\<close>

text \<open>
  A shallow embedding of the networking section of \<^verbatim>\<open>src/plugin/LHUB.py\<close>:
  \<^verbatim>\<open>_validate_command\<close>, \<^verbatim>\<open>_run_cli_command\<close>, \<^verbatim>\<open>_run_shell_command_with_pipes\<close>,
  \<^verbatim>\<open>do_prompt_for_sudo\<close> and the methods \<^verbatim>\<open>displayNotification\<close>,
  \<^verbatim>\<open>do_terminate_tunnels\<close>, \<^verbatim>\<open>do_verify_loopback_address\<close>,
  \<^verbatim>\<open>do_verify_ssh_tunnel_available\<close>, \<^verbatim>\<open>do_execute_port_redirect\<close> and
  \<^verbatim>\<open>do_execute_ssh_tunnel\<close> of class \<^verbatim>\<open>BitBar\<close>.

  Conventions of the model.
  \<^item> Python strings are \<open>string\<close>. The classes \<^verbatim>\<open>\s\<close>, \<^verbatim>\<open>\d\<close> and \<^verbatim>\<open>\w\<close> of the
    \<^verbatim>\<open>re\<close> module, and \<^verbatim>\<open>str.strip\<close>, are given for ASCII text; a byte above 127 belongs
    to none of them.
  \<^item> A dynamically typed value (an entry of a configuration dict) is a \<open>pyval\<close>.
  \<^item> Every exception is a value of \<open>error\<close>; an operation returns \<open>error + 'a\<close>
    together with the trace of what it did.
  \<^item> Everything the program does to the outside is an \<open>event\<close> appended to a trace.
    What the outside answers is read from an \<open>env\<close>, which may depend on the trace so far.
  \<^item> The fixed regular expressions of the source are written out as matchers. Each of them
    is a sequence of greedy runs over disjoint character classes, so the greedy match is the
    only one the backtracking engine can find.
  \<^item> The shell and the packet filter \<^verbatim>\<open>pfctl\<close> are programs outside the repository. What the
    statements need of them is written down in one subsection, from the words of the
    specification.
\<close>

subsection \<open>Values, errors, events, environment\<close>

datatype pyval = VNone | VBool bool | VInt int | VStr string

datatype error =
    AssertionError string
  | ValueError string
  | IndexError string
  | TypeError string
  | AttributeError string
  | CalledProcessError int string
  | TimeoutExpired string
  | OSError string
  | ReError string

text \<open>What \<^verbatim>\<open>subprocess.run\<close> gives back: a completed process (return code, captured
  standard output) or an exception (a timeout, a command that cannot be started).\<close>

datatype run_outcome = Completed int string | Raised error

datatype event =
    Run string
  | Shell string
  | Popen string
  | Print string

text \<open>
  \<open>Run c\<close>: \<^verbatim>\<open>_run_cli_command\<close> handed the words of the validated command \<open>c\<close> to
  \<^verbatim>\<open>subprocess.run\<close>. \<open>Shell c\<close>: \<^verbatim>\<open>subprocess.getoutput(c)\<close>.
  \<open>Popen c\<close>: \<^verbatim>\<open>os.popen(c)\<close>, whose result is never read. \<open>Print s\<close>: \<^verbatim>\<open>print(s)\<close>.
\<close>

record env =
  subprocess_run :: "event list \<Rightarrow> string \<Rightarrow> run_outcome"
  getoutput :: "event list \<Rightarrow> string \<Rightarrow> string"
  re_findall :: "string \<Rightarrow> string \<Rightarrow> error + bool"
  debug_enabled :: bool
  local_user :: pyval
  default_ssh_key :: string

text \<open>
  \<open>re_findall w p s\<close> stands for the truth value of \<^verbatim>\<open>re.findall(p, s)\<close> (or the
  \<^verbatim>\<open>re.error\<close> it raises) and is consulted only for a pattern that holds a regular-expression
  metacharacter other than the dot; see \<open>alias_found\<close>.
\<close>

type_synonym 'a io = "event list \<Rightarrow> (error + 'a) \<times> event list"

subsection \<open>Strings\<close>

abbreviation DQ :: string where "DQ \<equiv> [CHR 0x22]"
abbreviation BS :: string where "BS \<equiv> [CHR 0x5C]"
abbreviation NL :: string where "NL \<equiv> [CHR 0x0A]"
abbreviation TAB :: string where "TAB \<equiv> [CHR 0x09]"

definition is_space :: "char \<Rightarrow> bool" where
  "is_space c = (c \<in> set [CHR 0x09, CHR 0x0A, CHR 0x0B, CHR 0x0C, CHR 0x0D,
                             CHR 0x1C, CHR 0x1D, CHR 0x1E, CHR 0x1F, CHR '' ''])"

definition is_digit :: "char \<Rightarrow> bool" where
  "is_digit c = (c \<in> set ''0123456789'')"

definition is_word :: "char \<Rightarrow> bool" where
  "is_word c =
     (c \<in> set ''abcdefghijklmnopqrstuvwxyzABCDEFGHIJKLMNOPQRSTUVWXYZ0123456789_'')"

definition str_strip :: "string \<Rightarrow> string" where
  "str_strip s = rev (dropWhile is_space (rev (dropWhile is_space s)))"

definition starts_with :: "string \<Rightarrow> string \<Rightarrow> bool" where
  "starts_with p s = (take (length p) s = p)"

text \<open>\<^verbatim>\<open>sub in s\<close>.\<close>

fun str_contains :: "string \<Rightarrow> string \<Rightarrow> bool" where
  "str_contains sub [] = (sub = [])"
| "str_contains sub (c # cs) = (starts_with sub (c # cs) \<or> str_contains sub cs)"

text \<open>\<^verbatim>\<open>s.split('\n')\<close>: always at least one piece.\<close>

fun split_nl :: "string \<Rightarrow> string list" where
  "split_nl [] = [[]]"
| "split_nl (c # cs) =
     (if c = CHR 0x0A then [] # split_nl cs
      else (case split_nl cs of l # ls \<Rightarrow> (c # l) # ls | [] \<Rightarrow> [[c]]))"

text \<open>\<^verbatim>\<open>s.replace('"', '\\"')\<close>.\<close>

definition escape_quotes :: "string \<Rightarrow> string" where
  "escape_quotes s = concat (map (\<lambda>c. if c = CHR 0x22 then BS @ DQ else [c]) s)"

fun str_nat :: "nat \<Rightarrow> string" where
  "str_nat n =
     (if n < 10 then [''0123456789'' ! n]
      else str_nat (n div 10) @ [''0123456789'' ! (n mod 10)])"

declare str_nat.simps [simp del]

definition str_int :: "int \<Rightarrow> string" where
  "str_int i = (if i < 0 then ''-'' @ str_nat (nat (- i)) else str_nat (nat i))"

text \<open>The value of a decimal digit: its place in \<^verbatim>\<open>0123456789\<close>.\<close>

definition digit_val :: "char \<Rightarrow> nat" where
  "digit_val c = length (takeWhile (\<lambda>d. d \<noteq> c) ''0123456789'')"

text \<open>\<^verbatim>\<open>int(s)\<close> for a string of decimal digits (the only strings the source converts:
  group 1 of \<^verbatim>\<open>pid_pattern\<close>).\<close>

definition py_int :: "string \<Rightarrow> nat" where
  "py_int ds = foldl (\<lambda>a c. 10 * a + digit_val c) 0 ds"

subsection \<open>Dynamically typed values\<close>

text \<open>Truth value of a Python object, as \<^verbatim>\<open>assert x\<close>, \<^verbatim>\<open>x or y\<close> and \<^verbatim>\<open>if x\<close> read it.\<close>

fun truthy :: "pyval \<Rightarrow> bool" where
  "truthy VNone = False"
| "truthy (VBool b) = b"
| "truthy (VInt i) = (i \<noteq> 0)"
| "truthy (VStr s) = (s \<noteq> [])"

definition py_or :: "pyval \<Rightarrow> pyval \<Rightarrow> pyval" where
  "py_or a b = (if truthy a then a else b)"

text \<open>How an f-string prints a value.\<close>

fun py_format :: "pyval \<Rightarrow> string" where
  "py_format VNone = ''None''"
| "py_format (VBool b) = (if b then ''True'' else ''False'')"
| "py_format (VInt i) = str_int i"
| "py_format (VStr s) = s"

text \<open>\<^verbatim>\<open>d.get(k)\<close> and \<^verbatim>\<open>d.get(k, default)\<close>.\<close>

definition dict_get :: "(string \<rightharpoonup> pyval) \<Rightarrow> string \<Rightarrow> pyval" where
  "dict_get d k = (case d k of None \<Rightarrow> VNone | Some v \<Rightarrow> v)"

definition dict_get_default :: "(string \<rightharpoonup> pyval) \<Rightarrow> string \<Rightarrow> pyval \<Rightarrow> pyval" where
  "dict_get_default d k dflt = (case d k of None \<Rightarrow> dflt | Some v \<Rightarrow> v)"

text \<open>\<^verbatim>\<open>v.strip()\<close>: only a string has the method.\<close>

fun py_strip :: "pyval \<Rightarrow> error + string" where
  "py_strip (VStr s) = Inr (str_strip s)"
| "py_strip v = Inl (AttributeError ''strip'')"

text \<open>\<^verbatim>\<open>re.match(r'^127\..*', v)\<close>: a prefix test on a string, a \<^verbatim>\<open>TypeError\<close> otherwise.\<close>

fun match_loopback :: "pyval \<Rightarrow> error + bool" where
  "match_loopback (VStr s) = Inr (starts_with ''127.'' s)"
| "match_loopback v = Inl (TypeError ''expected string or bytes-like object'')"

subsection \<open>The regular expressions of the source\<close>

text \<open>\<^verbatim>\<open>pid_pattern = re.compile(r"^\s*\d+\s+(\d+)")\<close>: \<open>Some\<close> of group 1 when the line
  matches. The pattern is anchored, so \<^verbatim>\<open>findall\<close> has this one match at most.\<close>

definition pid_pattern :: "string \<Rightarrow> string option" where
  "pid_pattern line =
     (let s1 = dropWhile is_space line;
          d1 = takeWhile is_digit s1;
          s2 = dropWhile is_digit s1;
          sp = takeWhile is_space s2;
          s3 = dropWhile is_space s2;
          d2 = takeWhile is_digit s3
      in if d1 \<noteq> [] \<and> sp \<noteq> [] \<and> d2 \<noteq> [] then Some d2 else None)"

text \<open>\<^verbatim>\<open>[^\s:]+:\d+(?=:|\s)\<close> tried at the start of a string.\<close>

definition endpoint_char :: "char \<Rightarrow> bool" where
  "endpoint_char c = (\<not> is_space c \<and> c \<noteq> CHR '':'')"

definition endpoint_match :: "string \<Rightarrow> string option" where
  "endpoint_match s =
     (let r = takeWhile endpoint_char s in
      case dropWhile endpoint_char s of
        [] \<Rightarrow> None
      | c # s2 \<Rightarrow>
          if r \<noteq> [] \<and> c = CHR '':'' then
            (let d = takeWhile is_digit s2 in
             case dropWhile is_digit s2 of
               [] \<Rightarrow> None
             | e # s3 \<Rightarrow>
                 if d \<noteq> [] \<and> (e = CHR '':'' \<or> is_space e) then Some (r @ '':'' @ d)
                 else None)
          else None)"

text \<open>\<^verbatim>\<open>re.findall(r"[^\s:]+:\d+(?=:|\s)", s)\<close>: the matches from left to right, the search
  resuming where the last match ended.\<close>

fun findall_endpoints :: "string \<Rightarrow> string list" where
  "findall_endpoints [] = []"
| "findall_endpoints (c # cs) =
     (case endpoint_match (c # cs) of
        Some m \<Rightarrow> m # findall_endpoints (drop (length m - 1) cs)
      | None \<Rightarrow> findall_endpoints cs)"

text \<open>\<^verbatim>\<open>-f +(\S+)\<close> tried at the start of a string: group 1 and the length of the match.\<close>

definition server_match :: "string \<Rightarrow> (string \<times> nat) option" where
  "server_match s =
     (case s of
        a # b # s1 \<Rightarrow>
          if a = CHR ''-'' \<and> b = CHR ''f'' then
            (let sp = takeWhile (\<lambda>c. c = CHR '' '') s1;
                 g = takeWhile (\<lambda>c. \<not> is_space c) (dropWhile (\<lambda>c. c = CHR '' '') s1)
             in if sp \<noteq> [] \<and> g \<noteq> [] then Some (g, 2 + length sp + length g) else None)
          else None
      | _ \<Rightarrow> None)"

text \<open>\<^verbatim>\<open>re.findall(r'-f +(\S+)', s)\<close>: the groups from left to right.\<close>

fun findall_server :: "string \<Rightarrow> string list" where
  "findall_server [] = []"
| "findall_server (c # cs) =
     (case server_match (c # cs) of
        Some (g, n) \<Rightarrow> g # findall_server (drop (n - 1) cs)
      | None \<Rightarrow> findall_server cs)"

text \<open>
  \<^verbatim>\<open>re.findall(rf"\b{loopback_ip}\b", text)\<close>: the address is pasted into the pattern, so
  a dot in it matches any character but a newline. \<open>match_pattern\<close> matches a pattern of
  literal characters and dots at the start of a text and returns what follows the match.
\<close>

definition re_special :: "char \<Rightarrow> bool" where
  "re_special c = (c \<in> set (BS @ ''^$*+?{}[]()|''))"

fun match_pattern :: "string \<Rightarrow> string \<Rightarrow> string option" where
  "match_pattern [] s = Some s"
| "match_pattern (p # ps) [] = None"
| "match_pattern (p # ps) (c # cs) =
     (if (if p = CHR ''.'' then c \<noteq> CHR 0x0A else c = p) then match_pattern ps cs else None)"

text \<open>\<^verbatim>\<open>\b\<close> between a character (or the start) and the next one (or the end).\<close>

definition is_word_opt :: "char option \<Rightarrow> bool" where
  "is_word_opt x = (case x of None \<Rightarrow> False | Some c \<Rightarrow> is_word c)"

definition word_boundary :: "char option \<Rightarrow> char option \<Rightarrow> bool" where
  "word_boundary prev after = (is_word_opt prev \<noteq> is_word_opt after)"

definition first_char :: "string \<Rightarrow> char option" where
  "first_char s = (case s of [] \<Rightarrow> None | c # _ \<Rightarrow> Some c)"

definition last_char :: "char option \<Rightarrow> string \<Rightarrow> char option" where
  "last_char prev s = (if s = [] then prev else Some (last s))"

text \<open>The pattern \<^verbatim>\<open>\bP\b\<close> tried at one position: \<open>prev\<close> is the character in front.\<close>

definition match_bounded :: "string \<Rightarrow> char option \<Rightarrow> string \<Rightarrow> bool" where
  "match_bounded p prev s =
     (word_boundary prev (first_char s) \<and>
      (case match_pattern p s of
         None \<Rightarrow> False
       | Some rest \<Rightarrow>
           word_boundary (last_char prev (take (length p) s)) (first_char rest)))"

fun search_bounded :: "string \<Rightarrow> char option \<Rightarrow> string \<Rightarrow> bool" where
  "search_bounded p prev [] = match_bounded p prev []"
| "search_bounded p prev (c # cs) =
     (match_bounded p prev (c # cs) \<or> search_bounded p (Some c) cs)"

definition alias_found :: "env \<Rightarrow> string \<Rightarrow> string \<Rightarrow> error + bool" where
  "alias_found w loopback_ip text =
     (if \<exists>c \<in> set loopback_ip. re_special c
      then re_findall w (BS @ ''b'' @ loopback_ip @ BS @ ''b'') text
      else Inr (search_bounded loopback_ip None text))"

subsection \<open>Running commands\<close>

definition default_loopback_interface :: string where
  "default_loopback_interface = ''lo0''"

definition title_default :: string where
  "title_default = ''LogicHub_Utils''"

definition print_debug :: "env \<Rightarrow> string \<Rightarrow> event list \<Rightarrow> event list" where
  "print_debug w msg t = (if debug_enabled w then t @ [Print (''[DEBUG] '' @ msg)] else t)"

text \<open>
  \<^verbatim>\<open>shlex.split(s)\<close>: the lexer of the standard library in POSIX mode, split at white space
  (blank, tab, carriage return, newline), with no comment characters. Its states are those
  of \<^verbatim>\<open>shlex.read_token\<close>: between words, in a word, in a quotation, and after a backslash
  (met in a word or in a double quotation). The end of the input in a quotation or after a
  backslash raises \<^verbatim>\<open>ValueError\<close>.
\<close>

datatype shlex_state = Between | InWord | InQuote char | EscapedWord | EscapedQuote char

definition shlex_whitespace :: "char \<Rightarrow> bool" where
  "shlex_whitespace c = (c \<in> set [CHR '' '', CHR 0x09, CHR 0x0D, CHR 0x0A])"

definition shlex_quote :: "char \<Rightarrow> bool" where
  "shlex_quote c = (c = CHR 0x27 \<or> c = CHR 0x22)"

definition shlex_escape :: "char \<Rightarrow> bool" where
  "shlex_escape c = (c = CHR 0x5C)"

definition emit_token :: "string \<Rightarrow> error + string list \<Rightarrow> error + string list" where
  "emit_token tok r = (case r of Inl e \<Rightarrow> Inl e | Inr toks \<Rightarrow> Inr (tok # toks))"

fun shlex_tokens :: "shlex_state \<Rightarrow> string \<Rightarrow> bool \<Rightarrow> string \<Rightarrow> error + string list" where
  "shlex_tokens Between tok quoted [] = Inr (if tok \<noteq> [] \<or> quoted then [tok] else [])"
| "shlex_tokens InWord tok quoted [] = Inr (if tok \<noteq> [] \<or> quoted then [tok] else [])"
| "shlex_tokens (InQuote q) tok quoted [] = Inl (ValueError ''No closing quotation'')"
| "shlex_tokens EscapedWord tok quoted [] = Inl (ValueError ''No escaped character'')"
| "shlex_tokens (EscapedQuote q) tok quoted [] = Inl (ValueError ''No escaped character'')"
| "shlex_tokens Between tok quoted (c # cs) =
     (if shlex_whitespace c then
        (if tok \<noteq> [] \<or> quoted then emit_token tok (shlex_tokens Between [] False cs)
         else shlex_tokens Between tok quoted cs)
      else if shlex_escape c then shlex_tokens EscapedWord tok quoted cs
      else if shlex_quote c then shlex_tokens (InQuote c) tok quoted cs
      else shlex_tokens InWord [c] quoted cs)"
| "shlex_tokens InWord tok quoted (c # cs) =
     (if shlex_whitespace c then
        (if tok \<noteq> [] \<or> quoted then emit_token tok (shlex_tokens Between [] False cs)
         else shlex_tokens Between tok quoted cs)
      else if shlex_quote c then shlex_tokens (InQuote c) tok quoted cs
      else if shlex_escape c then shlex_tokens EscapedWord tok quoted cs
      else shlex_tokens InWord (tok @ [c]) quoted cs)"
| "shlex_tokens (InQuote q) tok quoted (c # cs) =
     (if c = q then shlex_tokens InWord tok True cs
      else if shlex_escape c \<and> q = CHR 0x22 then shlex_tokens (EscapedQuote q) tok True cs
      else shlex_tokens (InQuote q) (tok @ [c]) True cs)"
| "shlex_tokens EscapedWord tok quoted (c # cs) = shlex_tokens InWord (tok @ [c]) quoted cs"
| "shlex_tokens (EscapedQuote q) tok quoted (c # cs) =
     shlex_tokens (InQuote q) ((if \<not> shlex_escape c \<and> c \<noteq> q then tok @ BS else tok) @ [c]) quoted cs"

definition shlex_split :: "string \<Rightarrow> error + string list" where
  "shlex_split s = shlex_tokens Between [] False s"

text \<open>\<^verbatim>\<open>_validate_command\<close> for a command given as a string. The source returns the list of
  words; the model checks that the list exists and is not empty and returns the trimmed
  command, whose words are \<open>shlex_split\<close> of it.\<close>

definition validate_command :: "string \<Rightarrow> error + string" where
  "validate_command cmd =
     (let c = str_strip cmd in
      if c = [] then Inl (ValueError ''No command provided'')
      else if CHR ''|'' \<in> set c then Inl (ValueError ''Pipe commands not supported at this time'')
      else (case shlex_split c of
              Inl e \<Rightarrow> Inl e
            | Inr formatted_cmd \<Rightarrow>
                if formatted_cmd = [] then
                  Inl (ValueError ''Command failed to parse into a valid list of parts'')
                else Inr c))"

text \<open>\<^verbatim>\<open>_run_cli_command(cmd, timeout, test, capture_output)\<close>. The timeout and the capture
  flag configure the child process only; what they cause is part of the environment's answer.\<close>

definition run_cli_command :: "env \<Rightarrow> string \<Rightarrow> bool \<Rightarrow> (int \<times> string) io" where
  "run_cli_command w cmd test t =
     (let t1 = print_debug w (''Executing command: '' @ cmd) t in
      case validate_command cmd of
        Inl e \<Rightarrow> (Inl e, t1)
      | Inr c \<Rightarrow>
          (case subprocess_run w t1 c of
             Raised e \<Rightarrow> (Inl e, t1 @ [Run c])
           | Completed rc out \<Rightarrow>
               if test \<and> rc \<noteq> 0 then (Inl (CalledProcessError rc c), t1 @ [Run c])
               else (Inr (rc, out), t1 @ [Run c])))"

fun print_lines :: "string list \<Rightarrow> nat \<Rightarrow> event list \<Rightarrow> event list" where
  "print_lines [] indent t = t"
| "print_lines (l # ls) indent t = print_lines ls indent (t @ [Print (replicate indent CHR '' '' @ l)])"

text \<open>\<^verbatim>\<open>_run_shell_command_with_pipes(command)\<close> with the default
  \<^verbatim>\<open>print_result=True, indent=5\<close>.\<close>

definition run_shell_command_with_pipes :: "env \<Rightarrow> string \<Rightarrow> event list \<Rightarrow> string \<times> event list" where
  "run_shell_command_with_pipes w command t =
     (let t1 = print_debug w (''Executing command: '' @ command) t;
          out = getoutput w t1 command
      in (out, print_lines (split_nl out) 5 (t1 @ [Shell command])))"

definition sudo_probe :: string where
  "sudo_probe = ''sudo -v -p '' @ DQ @ ''sudo password: '' @ DQ"

definition do_prompt_for_sudo :: "env \<Rightarrow> (int \<times> string) io" where
  "do_prompt_for_sudo w t = run_cli_command w sudo_probe True t"

text \<open>\<^verbatim>\<open>displayNotification(content)\<close> with no title.\<close>

definition displayNotification :: "env \<Rightarrow> string \<Rightarrow> event list \<Rightarrow> event list" where
  "displayNotification w content t =
     t @ [Popen (''osascript -e '' @ DQ @ ''display notification '' @ BS @ DQ @ escape_quotes content
                 @ BS @ DQ @ '' with title '' @ BS @ DQ @ title_default @ BS @ DQ @ DQ)]"

subsection \<open>Terminating tunnels\<close>

text \<open>Assignment to a key of a dict, which keeps the order of first insertion.\<close>

fun dict_set :: "(nat \<times> string) list \<Rightarrow> nat \<Rightarrow> string \<Rightarrow> (nat \<times> string) list" where
  "dict_set [] k v = [(k, v)]"
| "dict_set ((k', v') # d) k v = (if k' = k then (k, v) # d else (k', v') # dict_set d k v)"

text \<open>The filter string \<^verbatim>\<open>specific_loopback\<close> of \<^verbatim>\<open>do_terminate_tunnels\<close>.\<close>

definition specific_loopback :: "pyval \<Rightarrow> pyval \<Rightarrow> error + string" where
  "specific_loopback loopback_ip loopback_port =
     (case (if truthy loopback_ip then py_strip loopback_ip else Inr []) of
        Inl e \<Rightarrow> Inl e
      | Inr s \<Rightarrow>
          (let sl = s @ '':'' in
           if sl \<noteq> [] \<and> truthy loopback_port then Inr (sl @ py_format loopback_port @ '':'')
           else Inr sl))"

text \<open>One line of the dict comprehension \<^verbatim>\<open>tunnel_PIDs\<close>: the line is kept, under the
  integer of group 1, when it passes the four filters.\<close>

definition add_tunnel_line :: "string \<Rightarrow> string \<Rightarrow> (nat \<times> string) list \<Rightarrow> (nat \<times> string) list" where
  "add_tunnel_line f l d =
     (if str_contains ''ssh'' l \<and> str_contains ''-L'' l \<and> pid_pattern l \<noteq> None \<and> str_contains f l
      then (case pid_pattern l of Some p \<Rightarrow> dict_set d (py_int p) l | None \<Rightarrow> d)
      else d)"

text \<open>The comprehension over the lines in order: the third argument is the dict built so
  far.\<close>

fun tunnel_PIDs :: "string \<Rightarrow> string list \<Rightarrow> (nat \<times> string) list \<Rightarrow> (nat \<times> string) list" where
  "tunnel_PIDs f [] d = d"
| "tunnel_PIDs f (l # ls) d = tunnel_PIDs f ls (add_tunnel_line f l d)"

definition kill_command :: "nat \<Rightarrow> string" where
  "kill_command pid = ''sudo kill -9 '' @ str_nat pid"

text \<open>The loop \<^verbatim>\<open>for PID in tunnel_PIDs\<close>. The unpacking of the first two endpoint matches
  raises \<^verbatim>\<open>ValueError\<close> when there are fewer than two, the index \<^verbatim>\<open>[0]\<close> raises
  \<^verbatim>\<open>IndexError\<close> when the server pattern has no match; nothing catches either, nor the
  \<^verbatim>\<open>CalledProcessError\<close> of a kill that fails.\<close>

fun kill_loop :: "env \<Rightarrow> (nat \<times> string) list \<Rightarrow> unit io" where
  "kill_loop w [] t = (Inr (), t)"
| "kill_loop w ((pid, tunnel) # rest) t =
     (case findall_endpoints tunnel of
        local_host_info # remote_host_info # _ \<Rightarrow>
          (case findall_server tunnel of
             [] \<Rightarrow> (Inl (IndexError ''list index out of range''), t)
           | tmp_ssh_server # _ \<Rightarrow>
               (let t1 = t @ [Print (''Killing '' @ local_host_info @ '' --> '' @ remote_host_info
                                     @ '' via '' @ tmp_ssh_server @ '' (PID '' @ str_nat pid @ '')'')]
                in case run_cli_command w (kill_command pid) True t1 of
                     (Inl e, t2) \<Rightarrow> (Inl e, t2)
                   | (Inr _, t2) \<Rightarrow> kill_loop w rest t2))
      | _ \<Rightarrow>
          (Inl (ValueError (''not enough values to unpack (expected 2, got ''
                            @ str_nat (length (findall_endpoints tunnel)) @ '')'')), t))"

text \<open>\<^verbatim>\<open>do_terminate_tunnels(loopback_ip=None, loopback_port=None)\<close>. The method has no
  \<^verbatim>\<open>return\<close> statement: where it does not raise, its value is \<^verbatim>\<open>None\<close>.\<close>

definition do_terminate_tunnels :: "env \<Rightarrow> pyval \<Rightarrow> pyval \<Rightarrow> pyval io" where
  "do_terminate_tunnels w loopback_ip loopback_port t =
     (case run_cli_command w ''ps -ef'' True t of
        (Inl e, t1) \<Rightarrow> (Inl e, t1)
      | (Inr (rc, out), t1) \<Rightarrow>
          (case specific_loopback loopback_ip loopback_port of
             Inl e \<Rightarrow> (Inl e, t1)
           | Inr f \<Rightarrow>
               (let d = tunnel_PIDs f (split_nl out) [] in
                if d = [] then
                  (Inr VNone,
                   displayNotification w ''No existing SSH tunnels found''
                     (t1 @ [Print ''No existing SSH tunnels found'']))
                else
                  (case do_prompt_for_sudo w t1 of
                     (Inl e, t2) \<Rightarrow> (Inl e, t2)
                   | (Inr _, t2) \<Rightarrow>
                       (case kill_loop w d t2 of
                          (Inl e, t3) \<Rightarrow> (Inl e, t3)
                        | (Inr _, t3) \<Rightarrow>
                            (Inr VNone, displayNotification w ''Tunnels terminated'' t3))))))"

subsection \<open>Loopback aliases\<close>

text \<open>The command \<^verbatim>\<open>f"sudo ifconfig {self.loopback_interface} alias ${loopback_ip}"\<close>; the
  attribute \<^verbatim>\<open>loopback_interface\<close> is set to \<^verbatim>\<open>default_loopback_interface\<close> and never
  changed. In an f-string only the braces are read: the dollar sign is a character of the
  command.\<close>

definition alias_command :: "string \<Rightarrow> string" where
  "alias_command loopback_ip = ''sudo ifconfig '' @ default_loopback_interface @ '' alias $'' @ loopback_ip"

text \<open>\<^verbatim>\<open>do_verify_loopback_address(loopback_ip, allow_all_loopback_ips=False)\<close>. The three
  \<^verbatim>\<open>assert\<close> statements are checked (the interpreter is started without \<^verbatim>\<open>-O\<close>).\<close>

definition do_verify_loopback_address :: "env \<Rightarrow> pyval \<Rightarrow> bool \<Rightarrow> pyval io" where
  "do_verify_loopback_address w loopback_ip allow_all_loopback_ips t =
     (if \<not> truthy loopback_ip then (Inl (AssertionError ''No loopback address provided''), t)
      else
        (case match_loopback loopback_ip of
           Inl e \<Rightarrow> (Inl e, t)
         | Inr False \<Rightarrow>
             (Inl (AssertionError (''Invalid loopback address ('' @ py_format loopback_ip @ '')'')), t)
         | Inr True \<Rightarrow>
             if \<not> allow_all_loopback_ips \<and> loopback_ip = VStr ''127.0.0.1'' then
               (Inl (AssertionError
                  ''Custom loopback IP is required. As a precaution, this script requires a loopback IP other than 127.0.0.1''), t)
             else
               (case py_strip loopback_ip of
                  Inl e \<Rightarrow> (Inl e, t)
                | Inr ip \<Rightarrow>
                    (case run_cli_command w ''ifconfig -a'' True t of
                       (Inl e, t1) \<Rightarrow> (Inl e, t1)
                     | (Inr (rc, out), t1) \<Rightarrow>
                         (case alias_found w ip out of
                            Inl e \<Rightarrow> (Inl e, t1)
                          | Inr True \<Rightarrow>
                              (Inr VNone,
                               print_debug w (''Existing loopback alias '' @ ip @ '' found'') t1)
                          | Inr False \<Rightarrow>
                              (let t2 = print_debug w (''Loopback alias '' @ ip @ '' not found; creating'') t1
                               in case do_prompt_for_sudo w t2 of
                                    (Inl e, t3) \<Rightarrow> (Inl e, t3)
                                  | (Inr _, t3) \<Rightarrow>
                                      (case run_cli_command w (alias_command ip) True t3 of
                                         (Inl e, t4) \<Rightarrow> (Inl e, t4)
                                       | (Inr _, t4) \<Rightarrow> (Inr VNone, t4))))))))"

definition do_verify_ssh_tunnel_available :: "env \<Rightarrow> pyval \<Rightarrow> pyval \<Rightarrow> pyval io" where
  "do_verify_ssh_tunnel_available w loopback_ip loopback_port t =
     do_terminate_tunnels w loopback_ip loopback_port
       (t @ [Print (''Checking for existing tunnels '' @ py_format loopback_ip @ '':''
                    @ py_format loopback_port @ ''...'')])"

subsection \<open>Port redirects\<close>

text \<open>\<^verbatim>\<open>do_execute_port_redirect\<close>, called by \<^verbatim>\<open>port_redirect_custom\<close> with four trimmed
  strings.\<close>

definition do_execute_port_redirect ::
  "env \<Rightarrow> string \<Rightarrow> string \<Rightarrow> string \<Rightarrow> string \<Rightarrow> pyval io" where
  "do_execute_port_redirect w source_address source_port target_address target_port t =
     (case do_verify_loopback_address w (VStr source_address) False t of
        (Inl e, t1) \<Rightarrow> (Inl e, t1)
      | (Inr _, t1) \<Rightarrow>
          (let t2 = print_debug w (''Making alias to redirect '' @ source_address @ '':'' @ source_port
                                   @ '' --> '' @ target_address @ '':'' @ target_port) t1;
               command = ''echo '' @ DQ @ ''rdr pass inet proto tcp from any to '' @ source_address
                         @ '' port '' @ source_port @ '' -> '' @ target_address @ '' port '' @ target_port
                         @ DQ @ '' | sudo -p '' @ DQ @ ''sudo password: '' @ DQ @ '' pfctl -ef -'';
               t3 = snd (run_shell_command_with_pipes w command (t2 @ [Print []]));
               result = ''Port Redirection Enabled:'' @ NL @ NL @ source_address @ '':'' @ source_port
                        @ '' --> '' @ target_address @ '':'' @ target_port
           in (Inr VNone, displayNotification w result (t3 @ [Print (NL @ result @ NL)]))))"

subsection \<open>SSH tunnels\<close>

definition loopback_port22_message :: string where
  "loopback_port22_message =
     ''Error: SSH server is a loopback IP, and the port is left at 22. This will create a tunnel to your own machine and won't work!''"

text \<open>The composition of \<^verbatim>\<open>ssh_options\<close> in \<^verbatim>\<open>do_execute_ssh_tunnel\<close>.\<close>

definition compose_ssh_options :: "pyval \<Rightarrow> string \<Rightarrow> string" where
  "compose_ssh_options ssh_key ssh_options =
     (let default_ssh_options = ''-i '' @ py_format ssh_key @ '' -o StrictHostKeyChecking=no'' in
      if ssh_options = [] then default_ssh_options
      else if \<not> str_contains ''-i'' ssh_options then ''-i '' @ py_format ssh_key @ '' '' @ ssh_options
      else ssh_options)"

definition ssh_command ::
  "string \<Rightarrow> pyval \<Rightarrow> pyval \<Rightarrow> pyval \<Rightarrow> pyval \<Rightarrow> pyval \<Rightarrow> pyval \<Rightarrow> pyval \<Rightarrow> string" where
  "ssh_command ssh_options local_address local_port remote_address remote_port ssh_user
     ssh_server_address ssh_server_port =
     ''sudo ssh '' @ ssh_options @ '' -Y -L '' @ py_format local_address @ '':'' @ py_format local_port
     @ '':'' @ py_format remote_address @ '':'' @ py_format remote_port @ '' -N -f ''
     @ py_format ssh_user @ ''@'' @ py_format ssh_server_address @ '' -p '' @ py_format ssh_server_port"

text \<open>\<^verbatim>\<open>do_execute_ssh_tunnel(config_dict)\<close>.\<close>

definition do_execute_ssh_tunnel :: "env \<Rightarrow> (string \<rightharpoonup> pyval) \<Rightarrow> pyval io" where
  "do_execute_ssh_tunnel w config_dict t =
     (case do_prompt_for_sudo w t of
        (Inl e, t1) \<Rightarrow> (Inl e, t1)
      | (Inr _, t1) \<Rightarrow>
          (let ssh_config_name = dict_get config_dict ''name'';
               remote_address = dict_get config_dict ''remote_ip'';
               remote_port = dict_get config_dict ''remote_port'';
               local_address = dict_get config_dict ''local_address'';
               local_port = py_or (dict_get config_dict ''local_port'') remote_port;
               ssh_server_address = dict_get config_dict ''ssh_server'';
               ssh_server_port = py_or (dict_get config_dict ''ssh_port'') (VInt 22);
               ssh_user = py_or (dict_get config_dict ''ssh_user'') (local_user w);
               ssh_key = py_or (dict_get config_dict ''ssh_key'') (VStr (default_ssh_key w))
           in case py_strip (dict_get_default config_dict ''ssh_options'' (VStr [])) of
                Inl e \<Rightarrow> (Inl e, t1)
              | Inr ssh_options \<Rightarrow>
                  if \<not> truthy ssh_config_name then
                    (Inl (AssertionError ''Error: SSH config must be given a name''), t1)
                  else if \<not> truthy ssh_server_address then
                    (Inl (AssertionError ''Error: SSH server address not provided''), t1)
                  else if \<not> truthy remote_address then
                    (Inl (AssertionError ''Error: Remote address for SSH tunnel not provided''), t1)
                  else if \<not> truthy remote_port then
                    (Inl (AssertionError ''Error: Remote port for SSH tunnel not provided''), t1)
                  else if \<not> truthy local_address then
                    (Inl (AssertionError ''Error: Loopback address not provided''), t1)
                  else if \<not> truthy local_port then
                    (Inl (AssertionError ''Error: Loopback port not provided''), t1)
                  else
                    (case (if ssh_server_port \<noteq> VInt 22 then Inr False
                           else match_loopback ssh_server_address) of
                       Inl e \<Rightarrow> (Inl e, t1)
                     | Inr True \<Rightarrow> (Inl (AssertionError loopback_port22_message), t1)
                     | Inr False \<Rightarrow>
                         (case do_verify_loopback_address w local_address False t1 of
                            (Inl e, t2) \<Rightarrow> (Inl e, t2)
                          | (Inr _, t2) \<Rightarrow>
                              (case do_verify_ssh_tunnel_available w local_address local_port t2 of
                                 (Inl e, t3) \<Rightarrow> (Inl e, t3)
                               | (Inr _, t3) \<Rightarrow>
                                   (let options = compose_ssh_options ssh_key ssh_options;
                                        t4 = t3 @
                                          [Print (''Redirecting for '' @ py_format ssh_config_name @ NL),
                                           Print (''From Local:'' @ NL @ TAB @ py_format local_address
                                                  @ '':'' @ py_format local_port @ NL),
                                           Print (''To Remote:'' @ NL @ TAB @ py_format remote_address
                                                  @ '':'' @ py_format remote_port @ NL @ NL)];
                                        command = ssh_command options local_address local_port
                                                    remote_address remote_port ssh_user
                                                    ssh_server_address ssh_server_port;
                                        t5 = t4 @ [Print (''Executing command:'' @ NL @ NL @ ''    ''
                                                          @ command @ NL)]
                                    in case run_cli_command w command True t5 of
                                         (Inl e, t6) \<Rightarrow> (Inl e, t6)
                                       | (Inr _, t6) \<Rightarrow>
                                           (Inr VNone,
                                            t6 @ [Print (NL @ ''SSH tunnel complete'' @ NL @ NL)])))))))"

subsection \<open>Reading a trace\<close>

text \<open>The external commands of a trace, in the order they were issued: what
  \<^verbatim>\<open>subprocess.run\<close> and \<^verbatim>\<open>subprocess.getoutput\<close> were given. Notifications
  (\<open>Popen\<close>) and printed lines are left out.\<close>

fun commands :: "event list \<Rightarrow> string list" where
  "commands [] = []"
| "commands (Run c # t) = c # commands t"
| "commands (Shell c # t) = c # commands t"
| "commands (Popen c # t) = commands t"
| "commands (Print s # t) = commands t"

subsection \<open>The packet filter\<close>

text \<open>
  Modelled from the spec: the firewall-control executor, \<^verbatim>\<open>pfctl\<close>, is not code of the
  repository. The specification says of its mode "load rules from standard input and enable"
  (\<^verbatim>\<open>pfctl -ef -\<close>) that it replaces the entire active rule set and does not add to it.
  \<open>pfctl_load_rules active input\<close> is the active rule set after the load: the non-empty
  lines of the input, whatever \<open>active\<close> was.
\<close>

definition pfctl_load_rules :: "string list \<Rightarrow> string \<Rightarrow> string list" where
  "pfctl_load_rules active input = filter (\<lambda>l. l \<noteq> []) (split_nl input)"

text \<open>
  Modelled from the spec: the shell that \<^verbatim>\<open>subprocess.getoutput\<close> starts is not code of the
  repository either. \<open>shell_plain c\<close>: the shell reads the character \<open>c\<close> as itself between
  double quotes (it is no double quote, backslash, dollar sign or backquote).
\<close>

definition shell_plain :: "char \<Rightarrow> bool" where
  "shell_plain c = (c \<notin> set (DQ @ BS @ ''$'' @ [CHR 0x60]))"

text \<open>The two fixed parts of the command that \<^verbatim>\<open>do_execute_port_redirect\<close> builds, in front
  of the rule and after it.\<close>

definition pfctl_pipe_prefix :: string where
  "pfctl_pipe_prefix = ''echo '' @ DQ"

definition pfctl_pipe_suffix :: string where
  "pfctl_pipe_suffix = DQ @ '' | sudo -p '' @ DQ @ ''sudo password: '' @ DQ @ '' pfctl -ef -''"

text \<open>
  Modelled from the spec: what the pipeline \<^verbatim>\<open>echo "<text>" | sudo -p "sudo password: " pfctl -ef -\<close>
  hands to the filter on its standard input, when the text has plain characters only: the
  text and a newline. \<open>None\<close> for every other command.
\<close>

definition piped_to_pfctl :: "string \<Rightarrow> string option" where
  "piped_to_pfctl c =
     (let r = take (length c - length pfctl_pipe_prefix - length pfctl_pipe_suffix)
                (drop (length pfctl_pipe_prefix) c)
      in if c = pfctl_pipe_prefix @ r @ pfctl_pipe_suffix \<and> list_all shell_plain r
         then Some (r @ NL) else None)"

text \<open>
  Modelled from the spec: the active rule set after the events of a trace, from the rule set
  before them. The pipeline above loads its text. Of any other command the model knows
  nothing: \<open>other active c\<close> is the rule set that the command \<open>c\<close> leaves, and the statements
  hold for every \<open>other\<close>. A notification and a printed line leave the rule set as it is.
\<close>

fun firewall_after ::
  "(string list \<Rightarrow> string \<Rightarrow> string list) \<Rightarrow> string list \<Rightarrow> event list \<Rightarrow> string list" where
  "firewall_after other active [] = active"
| "firewall_after other active (Shell c # t) =
     firewall_after other (case piped_to_pfctl c of
                             Some input \<Rightarrow> pfctl_load_rules active input
                           | None \<Rightarrow> other active c) t"
| "firewall_after other active (Run c # t) = firewall_after other (other active c) t"
| "firewall_after other active (Popen c # t) = firewall_after other active t"
| "firewall_after other active (Print x # t) = firewall_after other active t"

subsection \<open>Notions used in the statements\<close>

text \<open>A command that completes with status 0 whenever it is run.\<close>

definition completes_ok :: "env \<Rightarrow> string \<Rightarrow> bool" where
  "completes_ok w c = (\<forall>h. \<exists>out. subprocess_run w h c = Completed 0 out)"

text \<open>An address appears in a text: the text holds the address, character for character,
  between two word boundaries.\<close>

definition appears_in :: "string \<Rightarrow> string \<Rightarrow> bool" where
  "appears_in a text =
     (\<exists>pre post. text = pre @ a @ post
        \<and> word_boundary (last_char None pre) (first_char (a @ post))
        \<and> word_boundary (last_char (last_char None pre) a) (first_char post))"


text \<open>A process-table line from which the loop of \<^verbatim>\<open>do_terminate_tunnels\<close> can read what it
  prints: at least two endpoint matches and at least one server match.\<close>

definition well_formed_tunnel :: "string \<Rightarrow> bool" where
  "well_formed_tunnel l = (2 \<le> length (findall_endpoints l) \<and> findall_server l \<noteq> [])"

text \<open>A character that \<^verbatim>\<open>shlex\<close> reads as itself: no quote and no backslash.\<close>

definition shlex_plain :: "char \<Rightarrow> bool" where
  "shlex_plain c = (\<not> shlex_quote c \<and> \<not> shlex_escape c)"


text \<open>In the words of the specification, an option string designates an identity file: one
  of its words (at the start, or after white space) begins with the flag \<^verbatim>\<open>-i\<close>. The source
  has no such function; it tests \<^verbatim>\<open>"-i" not in ssh_options\<close>.\<close>

fun designates_from :: "bool \<Rightarrow> string \<Rightarrow> bool" where
  "designates_from at_word_start [] = False"
| "designates_from at_word_start (c # cs) =
     ((at_word_start \<and> starts_with ''-i'' (c # cs)) \<or> designates_from (is_space c) cs)"

definition designates_identity_file :: "string \<Rightarrow> bool" where
  "designates_identity_file opts = designates_from True opts"

subsection \<open>Environments for the worked examples\<close>

text \<open>An outside world in which every command completes with status 0 and prints nothing.\<close>

definition quiet_env :: env where
  "quiet_env =
     \<lparr> subprocess_run = (\<lambda>h c. Completed 0 []),
       getoutput = (\<lambda>h c. []),
       re_findall = (\<lambda>p s. Inr False),
       debug_enabled = False,
       local_user = VStr ''alice'',
       default_ssh_key = ''/keys/id'' \<rparr>"

text \<open>An outside world in which the loopback interface already carries \<^verbatim>\<open>127.0.0.2\<close>.\<close>

definition ifconfig_text :: string where
  "ifconfig_text = ''lo0: inet 127.0.0.1 netmask 0xff000000'' @ NL @ TAB @ ''inet 127.0.0.2 netmask 0xff000000''"

definition aliased_env :: env where
  "aliased_env =
     quiet_env \<lparr> subprocess_run :=
       (\<lambda>h c. if c = ''ifconfig -a'' then Completed 0 ifconfig_text else Completed 0 []) \<rparr>"

text \<open>A tunnel configuration whose SSH server is a loopback address and whose SSH port is left
  to its default.\<close>

definition loopback_cfg :: "string \<rightharpoonup> pyval" where
  "loopback_cfg = [''name'' \<mapsto> VStr ''jump'', ''remote_ip'' \<mapsto> VStr ''10.0.0.5'',
                   ''remote_port'' \<mapsto> VStr ''5432'', ''local_address'' \<mapsto> VStr ''127.0.0.2'',
                   ''ssh_server'' \<mapsto> VStr ''127.0.0.5'']"


definition tunnel_line_222 :: string where
  "tunnel_line_222 = ''  501   222     1   0 10:31AM ??  0:00.01 ssh -Y -L 127.0.0.3:8080:10.0.0.6:80 -N -f alice@bastion -p 22''"

definition tunnel_line_333 :: string where
  "tunnel_line_333 = ''  501   333     1   0 10:32AM ??  0:00.02 ssh -Y -L 127.0.0.4:8443:10.0.0.7:443 -N -f alice@bastion -p 22''"



text \<open>A process table whose second tunnel was started with a local port only
  (\<^verbatim>\<open>-L 5432:10.0.0.5:5432\<close>): its line passes the four filters and has one endpoint match.\<close>

definition port_only_line_111 :: string where
  "port_only_line_111 = ''  501   111     1   0 10:30AM ??  0:00.01 ssh -N -L 5432:10.0.0.5:5432 -f alice@bastion''"

definition ps_port_only :: string where
  "ps_port_only = ''  UID   PID  PPID   C STIME   TTY           TIME CMD'' @ NL @ tunnel_line_222 @ NL
                  @ port_only_line_111 @ NL @ tunnel_line_333 @ NL"

definition port_only_env :: env where
  "port_only_env =
     quiet_env \<lparr> subprocess_run := (\<lambda>h c. if c = ''ps -ef'' then Completed 0 ps_port_only else Completed 0 []) \<rparr>"

text \<open>A tunnel that runs in the foreground: its line has two endpoint matches and no
  \<^verbatim>\<open>-f\<close>.\<close>

definition foreground_line_444 :: string where
  "foreground_line_444 = ''  501   444     1   0 10:33AM ??  0:00.03 ssh -N -L 127.0.0.5:80:10.0.0.8:80 alice@bastion''"

definition foreground_env :: env where
  "foreground_env =
     quiet_env \<lparr> subprocess_run :=
       (\<lambda>h c. if c = ''ps -ef'' then Completed 0 (foreground_line_444 @ NL @ tunnel_line_333 @ NL)
               else Completed 0 []) \<rparr>"




text \<open>The configuration of the specification's scenario, under the keys the source reads, and
  the same configuration with the options \<^verbatim>\<open>-J jump-internal\<close>.\<close>

definition scenario_cfg :: "string \<rightharpoonup> pyval" where
  "scenario_cfg = [''name'' \<mapsto> VStr ''db'', ''local_address'' \<mapsto> VStr ''127.0.0.2'',
                   ''local_port'' \<mapsto> VInt 5432, ''remote_ip'' \<mapsto> VStr ''10.0.0.5'',
                   ''remote_port'' \<mapsto> VInt 5432, ''ssh_server'' \<mapsto> VStr ''bastion.example.com'',
                   ''ssh_user'' \<mapsto> VStr ''alice'', ''ssh_key'' \<mapsto> VStr ''/keys/id'']"

definition jump_cfg :: "string \<rightharpoonup> pyval" where
  "jump_cfg = scenario_cfg(''ssh_options'' \<mapsto> VStr ''-J jump-internal'')"

section \<open>Basic facts\<close>

subsection \<open>Traces\<close>

lemma commands_append [simp]: "commands (a @ b) = commands a @ commands b"
  by (induction a rule: commands.induct) simp_all

lemma commands_print_debug [simp]: "commands (print_debug w m t) = commands t"
  by (simp add: print_debug_def)

lemma commands_displayNotification [simp]: "commands (displayNotification w c t) = commands t"
  by (simp add: displayNotification_def)

lemma commands_print_lines [simp]: "commands (print_lines ls n t) = commands t"
  by (induction ls arbitrary: t) simp_all

subsection \<open>Trimming, validating and running a command\<close>


lemma str_strip_fixed:
  assumes "s = [] \<or> (\<not> is_space (hd s) \<and> \<not> is_space (last s))"
  shows "str_strip s = s"
proof (cases "s = []")
  case True
  then show ?thesis by (simp add: str_strip_def)
next
  case False
  with assms have h: "\<not> is_space (hd s)" and l: "\<not> is_space (last s)" by auto
  from False h have d1: "dropWhile is_space s = s" by (cases s) auto
  from False l have "\<not> is_space (hd (rev s))" by (simp add: hd_rev)
  with False have d2: "dropWhile is_space (rev s) = rev s" by (cases "rev s") auto
  show ?thesis by (simp add: str_strip_def d1 d2)
qed


lemma shlex_tokens_plain:
  assumes "\<forall>c \<in> set s. shlex_plain c" "st = Between \<or> st = InWord"
  shows "\<exists>ws. shlex_tokens st tok q s = Inr ws
              \<and> (tok \<noteq> [] \<or> q \<or> (\<exists>c \<in> set s. \<not> shlex_whitespace c) \<longrightarrow> ws \<noteq> [])"
  using assms
proof (induction s arbitrary: st tok q)
  case Nil
  then show ?case by auto
next
  case (Cons c cs)
  from Cons.prems have pc: "\<not> shlex_quote c" "\<not> shlex_escape c"
    and rest: "\<forall>c \<in> set cs. shlex_plain c" by (auto simp: shlex_plain_def)
  show ?case
  proof (cases "shlex_whitespace c")
    case True
    show ?thesis
    proof (cases "tok \<noteq> [] \<or> q")
      case True
      from Cons.IH [OF rest, of Between "[]" False] obtain ws
        where "shlex_tokens Between [] False cs = Inr ws" by auto
      with \<open>shlex_whitespace c\<close> True Cons.prems(2) show ?thesis
        by (auto simp: emit_token_def)
    next
      case False
      from Cons.IH [OF rest, of Between tok q] obtain ws
        where "shlex_tokens Between tok q cs = Inr ws"
          and "tok \<noteq> [] \<or> q \<or> (\<exists>c \<in> set cs. \<not> shlex_whitespace c) \<longrightarrow> ws \<noteq> []" by auto
      with \<open>shlex_whitespace c\<close> False Cons.prems(2) show ?thesis by auto
    qed
  next
    case False
    from Cons.IH [OF rest, of InWord "[c]" q] obtain ws1
      where 1: "shlex_tokens InWord [c] q cs = Inr ws1" "ws1 \<noteq> []" by auto
    from Cons.IH [OF rest, of InWord "tok @ [c]" q] obtain ws2
      where 2: "shlex_tokens InWord (tok @ [c]) q cs = Inr ws2" "ws2 \<noteq> []" by auto
    from Cons.prems(2) show ?thesis
    proof
      assume "st = Between"
      with False pc 1 show ?thesis by simp
    next
      assume "st = InWord"
      with False pc 2 show ?thesis by simp
    qed
  qed
qed

lemma shlex_whitespace_is_space: "shlex_whitespace c \<Longrightarrow> is_space c"
  by (auto simp: shlex_whitespace_def is_space_def)

lemma validate_command_plain:
  assumes "s \<noteq> []" "\<not> is_space (hd s)" "\<not> is_space (last s)" "CHR ''|'' \<notin> set s"
    and "\<forall>c \<in> set s. shlex_plain c"
  shows "validate_command s = Inr s"
proof -
  from assms(1,2) have "\<exists>c \<in> set s. \<not> shlex_whitespace c"
    by (cases s) (auto dest: shlex_whitespace_is_space)
  with shlex_tokens_plain [OF assms(5), of Between "[]" False] obtain ws
    where "shlex_split s = Inr ws" "ws \<noteq> []" by (auto simp: shlex_split_def)
  with assms(1-4) show ?thesis by (simp add: validate_command_def str_strip_fixed)
qed

lemma validate_ifconfig: "validate_command ''ifconfig -a'' = Inr ''ifconfig -a''"
  by (rule validate_command_plain)
     (simp_all add: is_space_def shlex_plain_def shlex_quote_def shlex_escape_def)

lemma validate_ps: "validate_command ''ps -ef'' = Inr ''ps -ef''"
  by (rule validate_command_plain)
     (simp_all add: is_space_def shlex_plain_def shlex_quote_def shlex_escape_def)

lemma shlex_split_sudo_probe:
  "shlex_split sudo_probe = Inr [''sudo'', ''-v'', ''-p'', ''sudo password: '']"
  by (simp add: shlex_split_def sudo_probe_def shlex_whitespace_def shlex_quote_def
        shlex_escape_def emit_token_def)

lemma validate_sudo_probe: "validate_command sudo_probe = Inr sudo_probe"
proof -
  have s: "str_strip sudo_probe = sudo_probe"
    by (rule str_strip_fixed) (simp add: sudo_probe_def is_space_def)
  show ?thesis
    unfolding validate_command_def Let_def s shlex_split_sudo_probe
    by (simp add: sudo_probe_def)
qed

lemma run_cli_command_commands:
  "validate_command cmd = Inr c \<Longrightarrow> commands (snd (run_cli_command w cmd test t)) = commands t @ [c]"
  by (simp add: run_cli_command_def Let_def split: run_outcome.splits)

lemma run_cli_command_completed:
  assumes "validate_command cmd = Inr c"
    and "subprocess_run w (print_debug w (''Executing command: '' @ cmd) t) c = Completed 0 out"
  shows "run_cli_command w cmd test t =
           (Inr (0, out), print_debug w (''Executing command: '' @ cmd) t @ [Run c])"
  using assms by (simp add: run_cli_command_def Let_def)


lemma do_prompt_for_sudo_commands:
  "commands (snd (do_prompt_for_sudo w t)) = commands t @ [sudo_probe]"
  by (simp add: do_prompt_for_sudo_def run_cli_command_commands validate_sudo_probe)

lemma run_cli_command_ok:
  assumes "validate_command cmd = Inr c" "completes_ok w c"
  shows "\<exists>out t'. run_cli_command w cmd test t = (Inr (0, out), t') \<and> commands t' = commands t @ [c]"
proof -
  from assms(2) obtain out
    where "subprocess_run w (print_debug w (''Executing command: '' @ cmd) t) c = Completed 0 out"
    unfolding completes_ok_def by blast
  with assms(1) show ?thesis by (simp add: run_cli_command_def Let_def)
qed

lemma do_prompt_for_sudo_ok:
  assumes "completes_ok w sudo_probe"
  shows "\<exists>out t'. do_prompt_for_sudo w t = (Inr (0, out), t') \<and> commands t' = commands t @ [sudo_probe]"
  unfolding do_prompt_for_sudo_def using validate_sudo_probe assms by (rule run_cli_command_ok)


subsection \<open>Searching for an address\<close>

lemma match_pattern_self: "match_pattern p (p @ rest) = Some rest"
  by (induction p) simp_all

lemma search_bounded_occurs:
  assumes "word_boundary (last_char prev pre) (first_char (p @ post))"
    and "word_boundary (last_char (last_char prev pre) p) (first_char post)"
  shows "search_bounded p prev (pre @ p @ post)"
  using assms
proof (induction pre arbitrary: prev)
  case Nil
  then have "match_bounded p prev (p @ post)"
    by (simp add: match_bounded_def match_pattern_self last_char_def)
  then show ?case by (cases "p @ post") auto
next
  case (Cons c pre)
  have "last_char (Some c) pre = last_char prev (c # pre)"
    by (simp add: last_char_def)
  with Cons.prems have "search_bounded p (Some c) (pre @ p @ post)"
    by (intro Cons.IH) simp_all
  then show ?case by simp
qed


lemma set_str_strip: "set (str_strip a) \<subseteq> set a"
  unfolding str_strip_def by (auto dest!: set_dropWhileD)

lemma alias_found_appears:
  assumes "\<forall>c \<in> set a. \<not> re_special c" "appears_in a text"
  shows "alias_found w a text = Inr True"
proof -
  from assms(2) obtain pre post where "text = pre @ a @ post"
    "word_boundary (last_char None pre) (first_char (a @ post))"
    "word_boundary (last_char (last_char None pre) a) (first_char post)"
    unfolding appears_in_def by blast
  then have "search_bounded a None text" by (simp add: search_bounded_occurs)
  with assms(1) show ?thesis by (simp add: alias_found_def)
qed

lemma run_ifconfig:
  assumes "subprocess_run w (print_debug w ''Executing command: ifconfig -a'' t) ''ifconfig -a''
             = Completed 0 out"
  shows "run_cli_command w ''ifconfig -a'' True t =
           (Inr (0, out), print_debug w ''Executing command: ifconfig -a'' t @ [Run ''ifconfig -a''])"
  using run_cli_command_completed [OF validate_ifconfig, of w t out True] assms by simp

lemma verify_loopback_found:
  assumes valid: "starts_with ''127.'' a" "allow \<or> a \<noteq> ''127.0.0.1''"
    and run: "subprocess_run w (print_debug w ''Executing command: ifconfig -a'' t) ''ifconfig -a''
                = Completed 0 out"
    and found: "alias_found w (str_strip a) out = Inr True"
  shows "do_verify_loopback_address w (VStr a) allow t =
           (Inr VNone,
            print_debug w (''Existing loopback alias '' @ str_strip a @ '' found'')
              (print_debug w ''Executing command: ifconfig -a'' t @ [Run ''ifconfig -a'']))"
proof -
  from valid have ne: "a \<noteq> []" by (auto simp: starts_with_def)
  from valid have nv: "(\<not> allow \<and> a = ''127.0.0.1'') = False" by blast
  show ?thesis
    using valid(1) ne found by (simp add: do_verify_loopback_address_def run_ifconfig [OF run] nv)
qed




subsection \<open>Lines that do not match, printed lines\<close>

lemma tunnel_PIDs_no_match:
  assumes "\<forall>l \<in> set ls. \<not> (str_contains ''ssh'' l \<and> str_contains ''-L'' l \<and> pid_pattern l \<noteq> None
                              \<and> str_contains f l)"
  shows "tunnel_PIDs f ls d = d"
  using assms by (induction ls arbitrary: d) (auto simp: add_tunnel_line_def)

lemma run_ps:
  assumes "subprocess_run w (print_debug w ''Executing command: ps -ef'' t) ''ps -ef'' = Completed 0 out"
  shows "run_cli_command w ''ps -ef'' True t =
           (Inr (0, out), print_debug w ''Executing command: ps -ef'' t @ [Run ''ps -ef''])"
  using run_cli_command_completed [OF validate_ps, of w t out True] assms by simp

lemma print_lines_append:
  "print_lines ls n t = t @ map (\<lambda>l. Print (replicate n CHR '' '' @ l)) ls"
  by (induction ls arbitrary: t) simp_all

lemma commands_map_Print [simp]: "commands (map (\<lambda>l. Print (f l)) ls) = []"
  by (induction ls) simp_all

lemma appears_in_ifconfig_text: "appears_in ''127.0.0.2'' ifconfig_text"
proof -
  have "ifconfig_text = (''lo0: inet 127.0.0.1 netmask 0xff000000'' @ NL @ TAB @ ''inet '')
          @ ''127.0.0.2'' @ '' netmask 0xff000000''"
    by (simp add: ifconfig_text_def)
  then show ?thesis
    unfolding appears_in_def
    by (intro exI [of _ "''lo0: inet 127.0.0.1 netmask 0xff000000'' @ NL @ TAB @ ''inet ''"]
          exI [of _ "'' netmask 0xff000000''"])
      (simp add: word_boundary_def last_char_def first_char_def is_word_opt_def is_word_def)
qed

lemma aliased_env_verify:
  "do_verify_loopback_address aliased_env (VStr ''127.0.0.2'') False t
     = (Inr VNone, t @ [Run ''ifconfig -a''])"
proof -
  have s: "str_strip ''127.0.0.2'' = ''127.0.0.2''"
    by (rule str_strip_fixed) (simp add: is_space_def)
  have v: "starts_with ''127.'' ''127.0.0.2''" by (simp add: starts_with_def)
  have n: "False \<or> ''127.0.0.2'' \<noteq> ''127.0.0.1''" by simp
  have r: "subprocess_run aliased_env (print_debug aliased_env ''Executing command: ifconfig -a'' t)
             ''ifconfig -a'' = Completed 0 ifconfig_text"
    by (simp add: aliased_env_def)
  have "\<forall>c \<in> set ''127.0.0.2''. \<not> re_special c" by (simp add: re_special_def)
  then have a: "alias_found aliased_env (str_strip ''127.0.0.2'') ifconfig_text = Inr True"
    unfolding s using appears_in_ifconfig_text by (rule alias_found_appears)
  have d: "debug_enabled aliased_env = False" by (simp add: aliased_env_def quiet_env_def)
  from verify_loopback_found [OF v n r a] show ?thesis by (simp add: print_debug_def d)
qed

subsection \<open>The kill loop, step by step\<close>

lemma str_nat_digits: "str_nat n \<noteq> [] \<and> set (str_nat n) \<subseteq> set ''0123456789''"
proof (induction n rule: str_nat.induct)
  case (1 n)
  show ?case
  proof (cases "n < 10")
    case True
    then have "''0123456789'' ! n \<in> set ''0123456789''" by (intro nth_mem) simp
    with True show ?thesis by (subst str_nat.simps, subst (2) str_nat.simps) simp
  next
    case False
    have "''0123456789'' ! (n mod 10) \<in> set ''0123456789''" by (intro nth_mem) simp
    with False 1 show ?thesis by (subst str_nat.simps, subst (2) str_nat.simps) simp
  qed
qed

lemma validate_kill_command: "validate_command (kill_command p) = Inr (kill_command p)"
proof (rule validate_command_plain)
  from str_nat_digits [of p] have ne: "str_nat p \<noteq> []" and d: "set (str_nat p) \<subseteq> set ''0123456789''"
    by simp_all
  show "kill_command p \<noteq> []" by (simp add: kill_command_def)
  show "\<not> is_space (hd (kill_command p))" by (simp add: kill_command_def is_space_def)
  from ne have "last (kill_command p) \<in> set (str_nat p)" by (simp add: kill_command_def)
  with d have "last (kill_command p) \<in> set ''0123456789''" by blast
  then show "\<not> is_space (last (kill_command p))" by (auto simp: is_space_def)
  from d show "CHR ''|'' \<notin> set (kill_command p)" by (auto simp: kill_command_def)
  from d show "\<forall>c \<in> set (kill_command p). shlex_plain c"
    by (auto simp: kill_command_def shlex_plain_def shlex_quote_def shlex_escape_def)
qed

lemma kill_loop_step_ok:
  assumes "well_formed_tunnel l" "completes_ok w (kill_command p)"
  shows "\<exists>t'. kill_loop w ((p, l) # d) t = kill_loop w d t' \<and> commands t' = commands t @ [kill_command p]"
proof -
  from assms(1) obtain a b r s r' where e: "findall_endpoints l = a # b # r" and f: "findall_server l = s # r'"
    unfolding well_formed_tunnel_def
    by (cases "findall_endpoints l"; cases "tl (findall_endpoints l)"; cases "findall_server l") auto
  let ?t1 = "t @ [Print (''Killing '' @ a @ '' --> '' @ b @ '' via '' @ s @ '' (PID '' @ str_nat p @ '')'')]"
  from run_cli_command_ok [OF validate_kill_command assms(2), of True ?t1] obtain out t'
    where r: "run_cli_command w (kill_command p) True ?t1 = (Inr (0, out), t')"
      and c: "commands t' = commands ?t1 @ [kill_command p]" by blast
  from r have "kill_loop w ((p, l) # d) t = kill_loop w d t'" by (simp add: e f)
  with c show ?thesis by auto
qed

lemma kill_loop_prefix:
  assumes "\<forall>(q, m) \<in> set d1. well_formed_tunnel m \<and> completes_ok w (kill_command q)"
  shows "\<exists>t'. kill_loop w (d1 @ d2) t = kill_loop w d2 t'
              \<and> commands t' = commands t @ map (kill_command \<circ> fst) d1"
  using assms
proof (induction d1 arbitrary: t)
  case Nil
  show ?case by (rule exI [of _ t]) simp
next
  case (Cons x d1)
  obtain q m where x: "x = (q, m)" by (cases x)
  with Cons.prems have "well_formed_tunnel m" "completes_ok w (kill_command q)" by auto
  from kill_loop_step_ok [OF this, of "d1 @ d2" t] obtain t1
    where 1: "kill_loop w ((q, m) # d1 @ d2) t = kill_loop w (d1 @ d2) t1"
      and 2: "commands t1 = commands t @ [kill_command q]" by blast
  from Cons.prems have "\<forall>(q, m) \<in> set d1. well_formed_tunnel m \<and> completes_ok w (kill_command q)" by simp
  from Cons.IH [OF this, of t1] obtain t'
    where 3: "kill_loop w (d1 @ d2) t1 = kill_loop w d2 t'"
      and 4: "commands t' = commands t1 @ map (kill_command \<circ> fst) d1" by blast
  from 1 2 3 4 x show ?case by auto
qed


lemma kill_loop_malformed:
  assumes "\<not> well_formed_tunnel l"
  shows "kill_loop w ((p, l) # d) t =
           (Inl (if length (findall_endpoints l) < 2
                 then ValueError (''not enough values to unpack (expected 2, got ''
                                  @ str_nat (length (findall_endpoints l)) @ '')'')
                 else IndexError ''list index out of range''), t)"
  using assms unfolding well_formed_tunnel_def
  by (cases "findall_endpoints l"; cases "tl (findall_endpoints l)"; cases "findall_server l") auto

lemma terminate_tunnels_found:
  assumes ps: "subprocess_run w (print_debug w ''Executing command: ps -ef'' t) ''ps -ef'' = Completed 0 out"
    and filt: "specific_loopback ip port = Inr f"
    and sudo: "completes_ok w sudo_probe"
    and found: "tunnel_PIDs f (split_nl out) [] = d" "d \<noteq> []"
  shows "\<exists>t2. commands t2 = commands t @ [''ps -ef'', sudo_probe]
              \<and> do_terminate_tunnels w ip port t =
                  (case kill_loop w d t2 of
                     (Inl e, t3) \<Rightarrow> (Inl e, t3)
                   | (Inr _, t3) \<Rightarrow> (Inr VNone, displayNotification w ''Tunnels terminated'' t3))"
proof -
  let ?t1 = "print_debug w ''Executing command: ps -ef'' t @ [Run ''ps -ef'']"
  from do_prompt_for_sudo_ok [OF sudo, of ?t1] obtain o2 t2
    where p: "do_prompt_for_sudo w ?t1 = (Inr (0, o2), t2)"
      and c: "commands t2 = commands ?t1 @ [sudo_probe]" by blast
  have "do_terminate_tunnels w ip port t =
          (case kill_loop w d t2 of
             (Inl e, t3) \<Rightarrow> (Inl e, t3)
           | (Inr _, t3) \<Rightarrow> (Inr VNone, displayNotification w ''Tunnels terminated'' t3))"
    using found p by (simp add: do_terminate_tunnels_def run_ps [OF ps] filt Let_def)
  with c show ?thesis by auto
qed

lemma specific_loopback_none: "specific_loopback VNone VNone = Inr '':''"
  by (simp add: specific_loopback_def)


lemma kill_command_222: "kill_command 222 = ''sudo kill -9 222''"
  by code_simp


lemma well_formed_tunnel_222: "well_formed_tunnel tunnel_line_222"
  by code_simp

lemma not_well_formed_port_only: "\<not> well_formed_tunnel port_only_line_111"
  by code_simp

subsection \<open>The matchers on a line of known shape\<close>








lemma findall_endpoints_None:
  assumes "endpoint_match (c # cs) = None"
  shows "findall_endpoints (c # cs) = findall_endpoints cs"
  using assms by simp












lemma print_debug_append:
  "print_debug w m t = t @ (if debug_enabled w then [Print (''[DEBUG] '' @ m)] else [])"
  by (simp add: print_debug_def)


subsection \<open>The option string and the scenario\<close>

lemma compose_ssh_options_cases:
  "compose_ssh_options k [] = ''-i '' @ py_format k @ '' -o StrictHostKeyChecking=no''"
  "opts \<noteq> [] \<Longrightarrow> str_contains ''-i'' opts \<Longrightarrow> compose_ssh_options k opts = opts"
  "opts \<noteq> [] \<Longrightarrow> \<not> str_contains ''-i'' opts \<Longrightarrow> compose_ssh_options k opts = ''-i '' @ py_format k @ '' '' @ opts"
  by (simp_all add: compose_ssh_options_def)

lemma str_int_5432: "str_int 5432 = ''5432''"
  by code_simp

lemma str_int_22: "str_int 22 = ''22''"
  by code_simp

lemma aliased_env_sudo:
  "do_prompt_for_sudo aliased_env t = (Inr (0, []), t @ [Run sudo_probe])"
proof -
  have "subprocess_run aliased_env (print_debug aliased_env (''Executing command: '' @ sudo_probe) t) sudo_probe
          = Completed 0 []" by (simp add: aliased_env_def sudo_probe_def)
  with validate_sudo_probe show ?thesis
    by (simp add: do_prompt_for_sudo_def run_cli_command_completed print_debug_def aliased_env_def quiet_env_def)
qed

lemma aliased_env_no_tunnels:
  "do_terminate_tunnels aliased_env (VStr a) port t =
     (Inr VNone, displayNotification aliased_env ''No existing SSH tunnels found''
                   (t @ [Run ''ps -ef'', Print ''No existing SSH tunnels found'']))"
proof -
  have p: "subprocess_run aliased_env (print_debug aliased_env ''Executing command: ps -ef'' t) ''ps -ef''
             = Completed 0 []" by (simp add: aliased_env_def)
  obtain f where f: "specific_loopback (VStr a) port = Inr f"
    by (cases "truthy port"; cases "a = []") (simp_all add: specific_loopback_def Let_def)
  have d: "debug_enabled aliased_env = False" by (simp add: aliased_env_def quiet_env_def)
  show ?thesis
    by (simp add: do_terminate_tunnels_def run_ps [OF p] f add_tunnel_line_def Let_def print_debug_def d)
qed

lemma aliased_env_run:
  assumes "validate_command cmd = Inr c" "c \<noteq> ''ifconfig -a''"
  shows "run_cli_command aliased_env cmd True t = (Inr (0, []), t @ [Run c])"
  using assms by (simp add: run_cli_command_def print_debug_def aliased_env_def quiet_env_def Let_def)

lemma validate_scenario_command:
  "validate_command ''sudo ssh -i /keys/id -o StrictHostKeyChecking=no -Y -L 127.0.0.2:5432:10.0.0.5:5432 -N -f alice@bastion.example.com -p 22''
     = Inr ''sudo ssh -i /keys/id -o StrictHostKeyChecking=no -Y -L 127.0.0.2:5432:10.0.0.5:5432 -N -f alice@bastion.example.com -p 22''"
  by (rule validate_command_plain)
     (simp_all add: is_space_def shlex_plain_def shlex_quote_def shlex_escape_def)

lemma validate_jump_command:
  "validate_command ''sudo ssh -J jump-internal -Y -L 127.0.0.2:5432:10.0.0.5:5432 -N -f alice@bastion.example.com -p 22''
     = Inr ''sudo ssh -J jump-internal -Y -L 127.0.0.2:5432:10.0.0.5:5432 -N -f alice@bastion.example.com -p 22''"
  by (rule validate_command_plain)
     (simp_all add: is_space_def shlex_plain_def shlex_quote_def shlex_escape_def)

lemma scenario_command_issued:
  "commands (snd (do_execute_ssh_tunnel aliased_env scenario_cfg []))
     = [sudo_probe, ''ifconfig -a'', ''ps -ef'',
        ''sudo ssh -i /keys/id -o StrictHostKeyChecking=no -Y -L 127.0.0.2:5432:10.0.0.5:5432 -N -f alice@bastion.example.com -p 22'']"
proof -
  have u: "local_user aliased_env = VStr ''alice''" "default_ssh_key aliased_env = ''/keys/id''"
    by (simp_all add: aliased_env_def quiet_env_def)
  have c: "compose_ssh_options (VStr ''/keys/id'') [] = ''-i /keys/id -o StrictHostKeyChecking=no''"
    by (simp add: compose_ssh_options_def)
  show ?thesis
    by (simp add: do_execute_ssh_tunnel_def aliased_env_sudo scenario_cfg_def dict_get_def
          dict_get_default_def py_or_def str_strip_def Let_def aliased_env_verify
          do_verify_ssh_tunnel_available_def aliased_env_no_tunnels c ssh_command_def
          str_int_5432 str_int_22 aliased_env_run [OF validate_scenario_command] u starts_with_def)
qed

subsection \<open>The packet filter after a trace\<close>

lemma split_nl_line: "CHR 0x0A \<notin> set r \<Longrightarrow> split_nl (r @ NL) = [r, []]"
  by (induction r) auto

lemma pfctl_load_rules_line:
  "r \<noteq> [] \<Longrightarrow> CHR 0x0A \<notin> set r \<Longrightarrow> pfctl_load_rules active (r @ NL) = [r]"
  by (simp add: pfctl_load_rules_def split_nl_line)

lemma piped_to_pfctl_built:
  "list_all shell_plain r \<Longrightarrow> piped_to_pfctl (pfctl_pipe_prefix @ r @ pfctl_pipe_suffix) = Some (r @ NL)"
  by (simp add: piped_to_pfctl_def Let_def)

lemma firewall_after_append:
  "firewall_after other active (t @ u) = firewall_after other (firewall_after other active t) u"
proof (induction t arbitrary: active)
  case Nil
  show ?case by simp
next
  case (Cons e t)
  then show ?case by (cases e) simp_all
qed

lemma firewall_after_quiet: "commands t = [] \<Longrightarrow> firewall_after other active t = active"
proof (induction t)
  case Nil
  show ?case by simp
next
  case (Cons e t)
  then show ?case by (cases e) simp_all
qed

lemma firewall_after_load:
  assumes "list_all shell_plain r" "r \<noteq> []" "CHR 0x0A \<notin> set r" "commands t3 = []"
  shows "firewall_after other active (t2 @ [Shell (pfctl_pipe_prefix @ r @ pfctl_pipe_suffix)] @ t3) = [r]"
  using assms
  by (simp add: firewall_after_append firewall_after_quiet piped_to_pfctl_built pfctl_load_rules_line)

section \<open>The claims\<close>

subsection \<open>Loopback addresses that are refused\<close>

text \<open>
  Claim C7. Without the override \<^verbatim>\<open>allow_all_loopback_ips\<close>,
  \<^verbatim>\<open>do_verify_loopback_address\<close> refuses the literal address \<^verbatim>\<open>127.0.0.1\<close> with an
  \<^verbatim>\<open>AssertionError\<close>; with or without the override it refuses every string that does not
  start with \<^verbatim>\<open>127.\<close>; and \<^verbatim>\<open>do_execute_port_redirect\<close> with the source address
  \<^verbatim>\<open>127.0.0.1\<close> fails with that \<^verbatim>\<open>AssertionError\<close>. In all three cases the trace is left
  as it was: no command of any kind has been executed, the redirect command included.
\<close>

theorem verify_loopback_rejects:
  "do_verify_loopback_address w (VStr ''127.0.0.1'') False t =
     (Inl (AssertionError
        ''Custom loopback IP is required. As a precaution, this script requires a loopback IP other than 127.0.0.1''), t)
   \<and> (\<not> starts_with ''127.'' a \<longrightarrow>
        (\<exists>m. do_verify_loopback_address w (VStr a) allow t = (Inl (AssertionError m), t)))
   \<and> (\<exists>m. do_execute_port_redirect w ''127.0.0.1'' sp ta tp t = (Inl (AssertionError m), t))"
  by (simp add: do_verify_loopback_address_def do_execute_port_redirect_def starts_with_def)

theorem verify_loopback_rejects_witness:
  "\<not> starts_with ''127.'' ''10.0.0.1''
   \<and> (\<exists>m. do_verify_loopback_address quiet_env (VStr ''10.0.0.1'') True [] = (Inl (AssertionError m), []))
   \<and> (\<exists>m. do_execute_port_redirect quiet_env ''127.0.0.1'' ''80'' ''10.0.0.1'' ''8080'' []
            = (Inl (AssertionError m), []))"
  using verify_loopback_rejects [of quiet_env "[]" "''10.0.0.1''" True "''80''" "''10.0.0.1''" "''8080''"]
  by (simp add: starts_with_def)

subsection \<open>Loopback aliases that exist, and those that are created\<close>

text \<open>
  Claim C6. \<^verbatim>\<open>do_verify_loopback_address\<close> called with an address that passes its checks
  (it starts with \<^verbatim>\<open>127.\<close>, and is not \<^verbatim>\<open>127.0.0.1\<close> unless the override is set) and
  that appears in the output of \<^verbatim>\<open>ifconfig -a\<close> returns normally, and the one command it
  issues is \<^verbatim>\<open>ifconfig -a\<close>: no alias is created and no \<^verbatim>\<open>sudo\<close> session is asked for.
  The trace \<open>t\<close> the call starts from is arbitrary, so the statement covers a second call
  after a first one. The address is trimmed before it is searched for; it has no
  regular-expression metacharacter but the dot.
\<close>

theorem alias_present_no_command:
  assumes valid: "starts_with ''127.'' a" "allow \<or> a \<noteq> ''127.0.0.1''"
    and plain: "\<forall>c \<in> set a. \<not> re_special c"
    and run: "subprocess_run w (print_debug w ''Executing command: ifconfig -a'' t) ''ifconfig -a''
                = Completed 0 out"
    and appears: "appears_in (str_strip a) out"
  shows "fst (do_verify_loopback_address w (VStr a) allow t) = Inr VNone
         \<and> commands (snd (do_verify_loopback_address w (VStr a) allow t)) = commands t @ [''ifconfig -a'']"
proof -
  from plain set_str_strip [of a] have "\<forall>c \<in> set (str_strip a). \<not> re_special c" by blast
  then have "alias_found w (str_strip a) out = Inr True" using appears by (rule alias_found_appears)
  with valid run show ?thesis by (simp add: verify_loopback_found)
qed

theorem alias_present_no_command_witness:
  "starts_with ''127.'' ''127.0.0.2'' \<and> appears_in (str_strip ''127.0.0.2'') ifconfig_text
   \<and> fst (do_verify_loopback_address aliased_env (VStr ''127.0.0.2'') False []) = Inr VNone
   \<and> commands (snd (do_verify_loopback_address aliased_env (VStr ''127.0.0.2'') False
                      (snd (do_verify_loopback_address aliased_env (VStr ''127.0.0.2'') False []))))
       = [''ifconfig -a'', ''ifconfig -a'']"
proof -
  let ?t1 = "snd (do_verify_loopback_address aliased_env (VStr ''127.0.0.2'') False [])"
  have s: "str_strip ''127.0.0.2'' = ''127.0.0.2''"
    by (rule str_strip_fixed) (simp add: is_space_def)
  have v: "starts_with ''127.'' ''127.0.0.2''" by (simp add: starts_with_def)
  have n: "False \<or> ''127.0.0.2'' \<noteq> ''127.0.0.1''" by simp
  have p: "\<forall>c \<in> set ''127.0.0.2''. \<not> re_special c" by (simp add: re_special_def)
  have r: "subprocess_run aliased_env (print_debug aliased_env ''Executing command: ifconfig -a'' t)
             ''ifconfig -a'' = Completed 0 ifconfig_text" for t
    by (simp add: aliased_env_def)
  have "ifconfig_text = (''lo0: inet 127.0.0.1 netmask 0xff000000'' @ NL @ TAB @ ''inet '')
          @ ''127.0.0.2'' @ '' netmask 0xff000000''"
    by (simp add: ifconfig_text_def)
  then have a: "appears_in (str_strip ''127.0.0.2'') ifconfig_text"
    unfolding appears_in_def s
    by (intro exI [of _ "''lo0: inet 127.0.0.1 netmask 0xff000000'' @ NL @ TAB @ ''inet ''"]
          exI [of _ "'' netmask 0xff000000''"])
      (simp add: word_boundary_def last_char_def first_char_def is_word_opt_def is_word_def)
  from alias_present_no_command [OF v n p r a, of "[]"] alias_present_no_command [OF v n p r a, of ?t1]
  show ?thesis using v a by simp
qed




subsection \<open>No tunnel to terminate\<close>

text \<open>
  Claim C8, as amended. When \<^verbatim>\<open>ps -ef\<close> completes and no line of its output passes the four
  filters of \<^verbatim>\<open>do_terminate_tunnels\<close> (it holds \<^verbatim>\<open>ssh\<close>, it holds \<^verbatim>\<open>-L\<close>, it matches
  \<^verbatim>\<open>pid_pattern\<close>, it holds the bind-endpoint filter string), the method prints and notifies
  \<^verbatim>\<open>No existing SSH tunnels found\<close>, raises nothing and returns \<^verbatim>\<open>None\<close>; the one command
  it has issued is \<^verbatim>\<open>ps -ef\<close>, so there is no kill and no \<^verbatim>\<open>sudo\<close> probe.
\<close>

theorem no_tunnels_found:
  assumes ps: "subprocess_run w (print_debug w ''Executing command: ps -ef'' t) ''ps -ef'' = Completed 0 out"
    and filt: "specific_loopback ip port = Inr f"
    and none: "\<forall>l \<in> set (split_nl out).
                 \<not> (str_contains ''ssh'' l \<and> str_contains ''-L'' l \<and> pid_pattern l \<noteq> None
                    \<and> str_contains f l)"
  shows "do_terminate_tunnels w ip port t =
           (Inr VNone,
            displayNotification w ''No existing SSH tunnels found''
              (print_debug w ''Executing command: ps -ef'' t
               @ [Run ''ps -ef'', Print ''No existing SSH tunnels found'']))
         \<and> commands (snd (do_terminate_tunnels w ip port t)) = commands t @ [''ps -ef'']"
proof -
  have d: "tunnel_PIDs f (split_nl out) [] = []" using none by (rule tunnel_PIDs_no_match)
  have "do_terminate_tunnels w ip port t =
           (Inr VNone,
            displayNotification w ''No existing SSH tunnels found''
              (print_debug w ''Executing command: ps -ef'' t
               @ [Run ''ps -ef'', Print ''No existing SSH tunnels found'']))"
    by (simp add: do_terminate_tunnels_def run_ps [OF ps] filt d Let_def)
  then show ?thesis by simp
qed

theorem no_tunnels_found_witness:
  "specific_loopback VNone VNone = Inr '':''
   \<and> do_terminate_tunnels quiet_env VNone VNone [] =
       (Inr VNone, displayNotification quiet_env ''No existing SSH tunnels found''
                     [Run ''ps -ef'', Print ''No existing SSH tunnels found''])
   \<and> commands (snd (do_terminate_tunnels quiet_env VNone VNone [])) = [''ps -ef'']"
proof -
  have p: "subprocess_run quiet_env (print_debug quiet_env ''Executing command: ps -ef'' []) ''ps -ef''
             = Completed 0 []" by (simp add: quiet_env_def)
  have f: "specific_loopback VNone VNone = Inr '':''" by (simp add: specific_loopback_def)
  have n: "\<forall>l \<in> set (split_nl []).
             \<not> (str_contains ''ssh'' l \<and> str_contains ''-L'' l \<and> pid_pattern l \<noteq> None
                \<and> str_contains '':'' l)" by simp
  from no_tunnels_found [OF p f n] show ?thesis
    using f by (simp add: print_debug_def quiet_env_def)
qed

text \<open>
  Claim C8 as stated has the method return a count of 0. The method returns nothing: on an
  empty process table its value is \<^verbatim>\<open>None\<close>, which is not the integer 0.
\<close>

theorem no_tunnels_returns_none_not_zero:
  "fst (do_terminate_tunnels quiet_env VNone VNone []) \<noteq> Inr (VInt 0)"
proof -
  have p: "subprocess_run quiet_env (print_debug quiet_env ''Executing command: ps -ef'' []) ''ps -ef''
             = Completed 0 []" by (simp add: quiet_env_def)
  have "fst (do_terminate_tunnels quiet_env VNone VNone []) = Inr VNone"
    by (simp add: do_terminate_tunnels_def run_ps [OF p] specific_loopback_def add_tunnel_line_def Let_def)
  then show ?thesis by simp
qed

subsection \<open>A loopback SSH server on port 22\<close>

text \<open>
  Claim C3, as amended. Let the SSH port of a configuration be the default 22 and its SSH
  server a string that starts with \<^verbatim>\<open>127.\<close>. Then \<^verbatim>\<open>do_execute_ssh_tunnel\<close> ends in an
  error, and the one external command it has issued is the \<^verbatim>\<open>sudo -v\<close> probe with which it
  begins: no \<^verbatim>\<open>ifconfig\<close>, \<^verbatim>\<open>ps\<close>, \<^verbatim>\<open>kill\<close> or \<^verbatim>\<open>ssh\<close> is run. When the probe completes
  with status 0 and \<^verbatim>\<open>ssh_options\<close> is absent or a string, the error is an
  \<^verbatim>\<open>AssertionError\<close>. The port compared with 22 is
  \<^verbatim>\<open>config_dict.get("ssh_port") or 22\<close>: it is the integer 22 when the key is absent or its
  value is false; a port given as the string \<^verbatim>\<open>"22"\<close> is not equal to it.
\<close>

theorem loopback_server_port22_rejected:
  assumes port: "py_or (dict_get cfg ''ssh_port'') (VInt 22) = VInt 22"
    and server: "dict_get cfg ''ssh_server'' = VStr s" "starts_with ''127.'' s"
  shows "\<exists>e t'. do_execute_ssh_tunnel w cfg t = (Inl e, t')
           \<and> commands t' = commands t @ [sudo_probe]
           \<and> ((\<exists>out. subprocess_run w (print_debug w (''Executing command: '' @ sudo_probe) t) sudo_probe
                        = Completed 0 out)
                \<and> (\<exists>opts. dict_get_default cfg ''ssh_options'' (VStr []) = VStr opts)
                \<longrightarrow> (\<exists>m. e = AssertionError m))"
proof -
  obtain r t1 where p: "do_prompt_for_sudo w t = (r, t1)" by (cases "do_prompt_for_sudo w t")
  with do_prompt_for_sudo_commands [of w t] have c: "commands t1 = commands t @ [sudo_probe]" by simp
  show ?thesis
  proof (cases r)
    case (Inl e)
    have "\<not> (\<exists>out. subprocess_run w (print_debug w (''Executing command: '' @ sudo_probe) t) sudo_probe
                        = Completed 0 out)"
    proof
      assume "\<exists>out. subprocess_run w (print_debug w (''Executing command: '' @ sudo_probe) t) sudo_probe
                        = Completed 0 out"
      then obtain out where "subprocess_run w (print_debug w (''Executing command: '' @ sudo_probe) t) sudo_probe
                        = Completed 0 out" by blast
      with validate_sudo_probe have "fst (do_prompt_for_sudo w t) = Inr (0, out)"
        by (simp add: do_prompt_for_sudo_def run_cli_command_completed)
      with p Inl show False by simp
    qed
    with p Inl c show ?thesis by (simp add: do_execute_ssh_tunnel_def)
  next
    case (Inr v)
    from server have m: "match_loopback (dict_get cfg ''ssh_server'') = Inr True" by simp
    have "\<exists>e. do_execute_ssh_tunnel w cfg t = (Inl e, t1)
             \<and> ((\<exists>opts. dict_get_default cfg ''ssh_options'' (VStr []) = VStr opts)
                  \<longrightarrow> (\<exists>m. e = AssertionError m))"
      using p Inr port m
      by (cases "dict_get_default cfg ''ssh_options'' (VStr [])")
         (auto simp: do_execute_ssh_tunnel_def Let_def)
    with c show ?thesis by blast
  qed
qed

theorem loopback_server_port22_rejected_witness:
  "py_or (dict_get loopback_cfg ''ssh_port'') (VInt 22) = VInt 22
   \<and> dict_get loopback_cfg ''ssh_server'' = VStr ''127.0.0.5'' \<and> starts_with ''127.'' ''127.0.0.5''
   \<and> (\<exists>m t'. do_execute_ssh_tunnel quiet_env loopback_cfg [] = (Inl (AssertionError m), t')
              \<and> commands t' = [sudo_probe])"
proof -
  have p: "py_or (dict_get loopback_cfg ''ssh_port'') (VInt 22) = VInt 22"
    by (simp add: py_or_def dict_get_def loopback_cfg_def)
  have s: "dict_get loopback_cfg ''ssh_server'' = VStr ''127.0.0.5''"
    by (simp add: dict_get_def loopback_cfg_def)
  have l: "starts_with ''127.'' ''127.0.0.5''" by (simp add: starts_with_def)
  have r: "\<exists>out. subprocess_run quiet_env
                    (print_debug quiet_env (''Executing command: '' @ sudo_probe) []) sudo_probe
                  = Completed 0 out"
    by (simp add: quiet_env_def)
  have opts: "\<exists>opts. dict_get_default loopback_cfg ''ssh_options'' (VStr []) = VStr opts"
    by (simp add: dict_get_default_def loopback_cfg_def)
  from loopback_server_port22_rejected [OF p s l, of quiet_env "[]"] obtain e t'
    where "do_execute_ssh_tunnel quiet_env loopback_cfg [] = (Inl e, t')"
      and "commands t' = commands [] @ [sudo_probe]"
      and "(\<exists>out. subprocess_run quiet_env
                    (print_debug quiet_env (''Executing command: '' @ sudo_probe) []) sudo_probe
                  = Completed 0 out)
           \<and> (\<exists>opts. dict_get_default loopback_cfg ''ssh_options'' (VStr []) = VStr opts)
           \<longrightarrow> (\<exists>m. e = AssertionError m)"
    by blast
  with r opts have "\<exists>m t'. do_execute_ssh_tunnel quiet_env loopback_cfg [] = (Inl (AssertionError m), t')
              \<and> commands t' = [sudo_probe]" by auto
  with p s l show ?thesis by blast
qed

text \<open>
  Claim C3 as stated has the rejection happen before any external command is executed. With
  every command succeeding, the trace of the rejected call holds the \<^verbatim>\<open>sudo -v\<close> probe: it
  ran before the assertion failed.
\<close>

theorem probe_runs_before_rejection:
  "do_execute_ssh_tunnel quiet_env loopback_cfg []
     = (Inl (AssertionError loopback_port22_message), [Run sudo_probe])"
proof -
  have "subprocess_run quiet_env (print_debug quiet_env (''Executing command: '' @ sudo_probe) []) sudo_probe
          = Completed 0 []" by (simp add: quiet_env_def)
  with validate_sudo_probe have p: "do_prompt_for_sudo quiet_env [] = (Inr (0, []), [Run sudo_probe])"
    by (simp add: do_prompt_for_sudo_def run_cli_command_completed print_debug_def quiet_env_def)
  show ?thesis
    by (simp add: do_execute_ssh_tunnel_def p loopback_cfg_def dict_get_def dict_get_default_def
          py_or_def str_strip_def starts_with_def Let_def)
qed

subsection \<open>The redirect rule\<close>

text \<open>
  Claim C9. Once \<^verbatim>\<open>do_verify_loopback_address\<close> has accepted the source address,
  \<^verbatim>\<open>do_execute_port_redirect\<close> returns normally and issues exactly one more command, through
  the shell: an \<^verbatim>\<open>echo\<close> of the one rule
  \<^verbatim>\<open>rdr pass inet proto tcp from any to <source_address> port <source_port> -> <target_address> port <target_port>\<close>
  piped into \<^verbatim>\<open>sudo -p "sudo password: " pfctl -ef -\<close>. The text piped is built from the four
  arguments of this call alone, whatever the trace \<open>t\<close> before it. With the packet filter
  as the specification describes it (\<open>firewall_after\<close>), and four arguments that have no
  newline and no character the shell reads specially between double quotes, the active rule
  set after the call is that one rule, whatever the rule set was before and whatever the
  commands of the trace before the call did to it: a second redirect discards the rule of the
  first.
\<close>

theorem redirect_rule_piped:
  assumes "do_verify_loopback_address w (VStr sa) False t = (Inr v, t1)"
  shows "\<exists>t2 t3. do_execute_port_redirect w sa sp ta tp t =
           (Inr VNone,
            t2 @ [Shell (''echo '' @ DQ @ ''rdr pass inet proto tcp from any to '' @ sa @ '' port '' @ sp
                         @ '' -> '' @ ta @ '' port '' @ tp @ DQ
                         @ '' | sudo -p '' @ DQ @ ''sudo password: '' @ DQ @ '' pfctl -ef -'')] @ t3)
           \<and> commands t2 = commands t1 \<and> commands t3 = []
           \<and> (list_all (\<lambda>c. shell_plain c \<and> c \<noteq> CHR 0x0A) (sa @ sp @ ta @ tp) \<longrightarrow>
                (\<forall>other active.
                   firewall_after other active (snd (do_execute_port_redirect w sa sp ta tp t))
                   = [''rdr pass inet proto tcp from any to '' @ sa @ '' port '' @ sp
                      @ '' -> '' @ ta @ '' port '' @ tp]))"
proof -
  let ?rule = "''rdr pass inet proto tcp from any to '' @ sa @ '' port '' @ sp
                 @ '' -> '' @ ta @ '' port '' @ tp"
  let ?c = "''echo '' @ DQ @ ''rdr pass inet proto tcp from any to '' @ sa @ '' port '' @ sp
                         @ '' -> '' @ ta @ '' port '' @ tp @ DQ
                         @ '' | sudo -p '' @ DQ @ ''sudo password: '' @ DQ @ '' pfctl -ef -''"
  let ?r = "''Port Redirection Enabled:'' @ NL @ NL @ sa @ '':'' @ sp @ '' --> '' @ ta @ '':'' @ tp"
  let ?t2 = "print_debug w (''Executing command: '' @ ?c)
               (print_debug w (''Making alias to redirect '' @ sa @ '':'' @ sp @ '' --> '' @ ta @ '':'' @ tp) t1
                @ [Print []])"
  let ?t3 = "map (\<lambda>l. Print (replicate 5 CHR '' '' @ l)) (split_nl (getoutput w ?t2 ?c))
             @ [Print (NL @ ?r @ NL)]
             @ [Popen (''osascript -e '' @ DQ @ ''display notification '' @ BS @ DQ @ escape_quotes ?r
                 @ BS @ DQ @ '' with title '' @ BS @ DQ @ title_default @ BS @ DQ @ DQ)]"
  have run: "do_execute_port_redirect w sa sp ta tp t = (Inr VNone, ?t2 @ [Shell ?c] @ ?t3)"
    using assms
    by (simp add: do_execute_port_redirect_def run_shell_command_with_pipes_def Let_def
          print_lines_append displayNotification_def)
  have c2: "commands ?t2 = commands t1" by simp
  have c3: "commands ?t3 = []" by simp
  have c: "?c = pfctl_pipe_prefix @ ?rule @ pfctl_pipe_suffix"
    by (simp add: pfctl_pipe_prefix_def pfctl_pipe_suffix_def)
  have fw: "firewall_after other active (snd (do_execute_port_redirect w sa sp ta tp t)) = [?rule]"
    if plain: "list_all (\<lambda>c. shell_plain c \<and> c \<noteq> CHR 0x0A) (sa @ sp @ ta @ tp)" for other active
  proof -
    from plain have p: "list_all shell_plain ?rule"
      by (simp add: list_all_iff shell_plain_def)
    from plain have n: "CHR 0x0A \<notin> set ?rule" by (auto simp: list_all_iff)
    have ne: "?rule \<noteq> []" by simp
    have "firewall_after other active (?t2 @ [Shell (pfctl_pipe_prefix @ ?rule @ pfctl_pipe_suffix)] @ ?t3)
            = [?rule]"
      using p ne n c3 by (rule firewall_after_load)
    then show ?thesis unfolding run c by simp
  qed
  from run c2 c3 fw show ?thesis by blast
qed

theorem redirect_rule_piped_witness:
  "(\<exists>v t1. do_verify_loopback_address aliased_env (VStr ''127.0.0.2'') False [] = (Inr v, t1))
   \<and> commands (snd (do_execute_port_redirect aliased_env ''127.0.0.2'' ''80'' ''10.0.0.1'' ''8080'' []))
       = [''ifconfig -a'',
          ''echo '' @ DQ @ ''rdr pass inet proto tcp from any to 127.0.0.2 port 80 -> 10.0.0.1 port 8080'' @ DQ
          @ '' | sudo -p '' @ DQ @ ''sudo password: '' @ DQ @ '' pfctl -ef -'']
   \<and> list_all (\<lambda>c. shell_plain c \<and> c \<noteq> CHR 0x0A) (''127.0.0.2'' @ ''80'' @ ''10.0.0.1'' @ ''8080'')
   \<and> (\<forall>other active.
         firewall_after other active
           (snd (do_execute_port_redirect aliased_env ''127.0.0.2'' ''80'' ''10.0.0.1'' ''8080'' []))
         = [''rdr pass inet proto tcp from any to 127.0.0.2 port 80 -> 10.0.0.1 port 8080''])
   \<and> (\<forall>other active.
         firewall_after other active
         (snd (do_execute_port_redirect aliased_env ''127.0.0.2'' ''443'' ''10.0.0.9'' ''8443''
                 (snd (do_execute_port_redirect aliased_env ''127.0.0.2'' ''80'' ''10.0.0.1'' ''8080'' []))))
         = [''rdr pass inet proto tcp from any to 127.0.0.2 port 443 -> 10.0.0.9 port 8443''])"
proof -
  let ?t1 = "snd (do_execute_port_redirect aliased_env ''127.0.0.2'' ''80'' ''10.0.0.1'' ''8080'' [])"
  have v: "do_verify_loopback_address aliased_env (VStr ''127.0.0.2'') False t
             = (Inr VNone, t @ [Run ''ifconfig -a''])" for t
    by (rule aliased_env_verify)
  have p1: "list_all (\<lambda>c. shell_plain c \<and> c \<noteq> CHR 0x0A) (''127.0.0.2'' @ ''80'' @ ''10.0.0.1'' @ ''8080'')"
    by (simp add: shell_plain_def)
  have p2: "list_all (\<lambda>c. shell_plain c \<and> c \<noteq> CHR 0x0A) (''127.0.0.2'' @ ''443'' @ ''10.0.0.9'' @ ''8443'')"
    by (simp add: shell_plain_def)
  from redirect_rule_piped [where t = "[]" and sp = "''80''" and ta = "''10.0.0.1''" and tp = "''8080''", OF v]
  have a: "commands (snd (do_execute_port_redirect aliased_env ''127.0.0.2'' ''80'' ''10.0.0.1'' ''8080'' []))
       = [''ifconfig -a'',
          ''echo '' @ DQ @ ''rdr pass inet proto tcp from any to 127.0.0.2 port 80 -> 10.0.0.1 port 8080'' @ DQ
          @ '' | sudo -p '' @ DQ @ ''sudo password: '' @ DQ @ '' pfctl -ef -'']"
    and b: "\<forall>other active. firewall_after other active ?t1
       = [''rdr pass inet proto tcp from any to 127.0.0.2 port 80 -> 10.0.0.1 port 8080'']"
    using p1 by auto
  from redirect_rule_piped [where t = ?t1 and sp = "''443''" and ta = "''10.0.0.9''" and tp = "''8443''", OF v]
  have c: "\<forall>other active. firewall_after other active
         (snd (do_execute_port_redirect aliased_env ''127.0.0.2'' ''443'' ''10.0.0.9'' ''8443'' ?t1))
       = [''rdr pass inet proto tcp from any to 127.0.0.2 port 443 -> 10.0.0.9 port 8443'']"
    using p2 by auto
  from v [of "[]"] a b c p1 show ?thesis by blast
qed

subsection \<open>The kill loop\<close>




text \<open>
  Claim C2, as amended. Under the same conditions, a matched line that is not well formed
  ends the method with an error when the loop reaches it: the \<^verbatim>\<open>ValueError\<close> of the unpacking
  (with the number of endpoint matches in its message) when the line has fewer than two
  endpoint matches, the \<^verbatim>\<open>IndexError\<close> of the index when it has two and no server match. The
  commands issued are the kills of the processes before that line, and none for it or for any
  line after it.
\<close>

theorem malformed_line_aborts:
  assumes ps: "subprocess_run w (print_debug w ''Executing command: ps -ef'' t) ''ps -ef'' = Completed 0 out"
    and filt: "specific_loopback ip port = Inr f"
    and sudo: "completes_ok w sudo_probe"
    and found: "tunnel_PIDs f (split_nl out) [] = d1 @ (p, l) # d2"
    and killed: "\<forall>(q, m) \<in> set d1. well_formed_tunnel m \<and> completes_ok w (kill_command q)"
    and malformed: "\<not> well_formed_tunnel l"
  shows "\<exists>t'. do_terminate_tunnels w ip port t =
                (Inl (if length (findall_endpoints l) < 2
                      then ValueError (''not enough values to unpack (expected 2, got ''
                                       @ str_nat (length (findall_endpoints l)) @ '')'')
                      else IndexError ''list index out of range''), t')
           \<and> commands t' = commands t @ [''ps -ef'', sudo_probe] @ map (kill_command \<circ> fst) d1"
proof -
  have "d1 @ (p, l) # d2 \<noteq> []" by simp
  from terminate_tunnels_found [OF ps filt sudo found this] obtain t2
    where c2: "commands t2 = commands t @ [''ps -ef'', sudo_probe]"
      and r: "do_terminate_tunnels w ip port t =
                (case kill_loop w (d1 @ (p, l) # d2) t2 of
                   (Inl e, t3) \<Rightarrow> (Inl e, t3)
                 | (Inr _, t3) \<Rightarrow> (Inr VNone, displayNotification w ''Tunnels terminated'' t3))"
    by blast
  from kill_loop_prefix [OF killed, of "(p, l) # d2" t2] obtain t3
    where 1: "kill_loop w (d1 @ (p, l) # d2) t2 = kill_loop w ((p, l) # d2) t3"
      and 2: "commands t3 = commands t2 @ map (kill_command \<circ> fst) d1" by blast
  note 3 = kill_loop_malformed [OF malformed, of w p d2 t3]
  from r 1 2 3 c2 show ?thesis by auto
qed

theorem malformed_line_aborts_witness:
  "tunnel_PIDs '':'' (split_nl ps_port_only) []
     = [(222, tunnel_line_222)] @ (111, port_only_line_111) # [(333, tunnel_line_333)]
   \<and> well_formed_tunnel tunnel_line_222 \<and> completes_ok port_only_env (kill_command 222)
   \<and> length (findall_endpoints port_only_line_111) = 1
   \<and> (\<exists>t'. do_terminate_tunnels port_only_env VNone VNone []
               = (Inl (ValueError ''not enough values to unpack (expected 2, got 1)''), t')
            \<and> commands t' = [''ps -ef'', sudo_probe, kill_command 222])
   \<and> tunnel_PIDs '':'' (split_nl (foreground_line_444 @ NL @ tunnel_line_333 @ NL)) []
       = (444, foreground_line_444) # [(333, tunnel_line_333)]
   \<and> length (findall_endpoints foreground_line_444) = 2 \<and> findall_server foreground_line_444 = []
   \<and> (\<exists>t'. do_terminate_tunnels foreground_env VNone VNone []
               = (Inl (IndexError ''list index out of range''), t')
            \<and> commands t' = [''ps -ef'', sudo_probe])"
proof -
  have ps: "subprocess_run port_only_env
              (print_debug port_only_env ''Executing command: ps -ef'' []) ''ps -ef''
            = Completed 0 ps_port_only"
    by (simp add: port_only_env_def)
  have sudo: "completes_ok port_only_env sudo_probe"
    by (simp add: completes_ok_def port_only_env_def sudo_probe_def)
  have found: "tunnel_PIDs '':'' (split_nl ps_port_only) []
     = [(222, tunnel_line_222)] @ (111, port_only_line_111) # [(333, tunnel_line_333)]"
    by code_simp
  have ok: "completes_ok port_only_env (kill_command 222)"
    by (simp add: completes_ok_def port_only_env_def kill_command_222)
  have killed: "\<forall>(q, m) \<in> set [(222, tunnel_line_222)].
                  well_formed_tunnel m \<and> completes_ok port_only_env (kill_command q)"
    using well_formed_tunnel_222 ok by simp
  have one: "length (findall_endpoints port_only_line_111) = 1" by code_simp
  have lt: "length (findall_endpoints port_only_line_111) < 2" using one by simp
  have s1: "str_nat (length (findall_endpoints port_only_line_111)) = ''1''" by code_simp
  from malformed_line_aborts [OF ps specific_loopback_none sudo found killed not_well_formed_port_only]
  have v: "\<exists>t'. do_terminate_tunnels port_only_env VNone VNone []
               = (Inl (ValueError ''not enough values to unpack (expected 2, got 1)''), t')
            \<and> commands t' = [''ps -ef'', sudo_probe, kill_command 222]"
    by (simp add: lt s1)
  have ps': "subprocess_run foreground_env
              (print_debug foreground_env ''Executing command: ps -ef'' []) ''ps -ef''
            = Completed 0 (foreground_line_444 @ NL @ tunnel_line_333 @ NL)"
    by (simp add: foreground_env_def)
  have sudo': "completes_ok foreground_env sudo_probe"
    by (simp add: completes_ok_def foreground_env_def sudo_probe_def)
  have found': "tunnel_PIDs '':'' (split_nl (foreground_line_444 @ NL @ tunnel_line_333 @ NL)) []
     = (444, foreground_line_444) # [(333, tunnel_line_333)]"
    by code_simp
  then have found'': "tunnel_PIDs '':'' (split_nl (foreground_line_444 @ NL @ tunnel_line_333 @ NL)) []
     = [] @ (444, foreground_line_444) # [(333, tunnel_line_333)]"
    by simp
  have killed': "\<forall>(q, m) \<in> set []. well_formed_tunnel m \<and> completes_ok foreground_env (kill_command q)"
    by simp
  have two: "length (findall_endpoints foreground_line_444) = 2" by code_simp
  have none: "findall_server foreground_line_444 = []" by code_simp
  from two none have mal: "\<not> well_formed_tunnel foreground_line_444"
    by (simp add: well_formed_tunnel_def)
  from malformed_line_aborts [OF ps' specific_loopback_none sudo' found'' killed' mal]
  have i: "\<exists>t'. do_terminate_tunnels foreground_env VNone VNone []
               = (Inl (IndexError ''list index out of range''), t')
            \<and> commands t' = [''ps -ef'', sudo_probe]"
    by (simp add: two)
  from found well_formed_tunnel_222 ok one v found' two none i show ?thesis by blast
qed

text \<open>
  Claim C2 as stated has the malformed line skipped and the later lines processed. With the
  port-only line second of three matched lines, the method raises \<^verbatim>\<open>ValueError\<close> at it and
  process 333, whose line is well formed, is never killed.
\<close>

theorem malformed_line_stops_later_kills:
  "fst (do_terminate_tunnels port_only_env VNone VNone [])
     = Inl (ValueError ''not enough values to unpack (expected 2, got 1)'')
   \<and> commands (snd (do_terminate_tunnels port_only_env VNone VNone []))
       = [''ps -ef'', sudo_probe, ''sudo kill -9 222'']
   \<and> map fst (tunnel_PIDs '':'' (split_nl ps_port_only) []) = [222, 111, 333]"
  by code_simp

subsection \<open>What is read from a process-table line\<close>




subsection \<open>The SSH option string\<close>

text \<open>
  Claim C5. The source composes the options by \<open>compose_ssh_options\<close>: the default options
  when none are given, the given options unchanged when they hold the two characters
  \<^verbatim>\<open>-i\<close> anywhere, and the default key in front of them otherwise
  (\<open>compose_ssh_options_cases\<close>); for the scenario the command issued is the one of the claim
  behind \<^verbatim>\<open>sudo\<close> (\<open>scenario_command_issued\<close>). The test for a given identity is a
  substring test, though: the options \<^verbatim>\<open>-J jump-internal\<close> designate no identity file, and
  the source leaves them as they are, so that the \<^verbatim>\<open>ssh\<close> command it issues has no
  \<^verbatim>\<open>-i\<close> option at all, where the claim (and the comment in the source: "If options were
  provided but no key was included, append the SSH key to use") has the default key put in
  front.
\<close>

theorem identity_test_is_substring:
  "\<not> designates_identity_file ''-J jump-internal''
   \<and> compose_ssh_options (VStr ''/keys/id'') ''-J jump-internal'' = ''-J jump-internal''
   \<and> commands (snd (do_execute_ssh_tunnel aliased_env jump_cfg []))
       = [sudo_probe, ''ifconfig -a'', ''ps -ef'',
          ''sudo ssh -J jump-internal -Y -L 127.0.0.2:5432:10.0.0.5:5432 -N -f alice@bastion.example.com -p 22'']"
proof -
  have n: "\<not> designates_identity_file ''-J jump-internal''"
    by (simp add: designates_identity_file_def starts_with_def is_space_def)
  have c: "compose_ssh_options (VStr ''/keys/id'') ''-J jump-internal'' = ''-J jump-internal''"
    by (simp add: compose_ssh_options_def starts_with_def)
  have s: "str_strip ''-J jump-internal'' = ''-J jump-internal''"
    by (rule str_strip_fixed) (simp add: is_space_def)
  have u: "local_user aliased_env = VStr ''alice''" "default_ssh_key aliased_env = ''/keys/id''"
    by (simp_all add: aliased_env_def quiet_env_def)
  have "commands (snd (do_execute_ssh_tunnel aliased_env jump_cfg []))
       = [sudo_probe, ''ifconfig -a'', ''ps -ef'',
          ''sudo ssh -J jump-internal -Y -L 127.0.0.2:5432:10.0.0.5:5432 -N -f alice@bastion.example.com -p 22'']"
    by (simp add: do_execute_ssh_tunnel_def aliased_env_sudo jump_cfg_def scenario_cfg_def dict_get_def
          dict_get_default_def py_or_def s Let_def aliased_env_verify
          do_verify_ssh_tunnel_available_def aliased_env_no_tunnels c ssh_command_def
          str_int_5432 str_int_22 aliased_env_run [OF validate_jump_command] u starts_with_def)
  with n c show ?thesis by blast
qed

end
